theory Spec2Isabelle
  imports Main "HOL-Library.AList"
begin

section \<open>RepoPatch: multi-source file resolution and patch preview\<close>

text \<open>
  A shallow embedding of the browser-side JavaScript of RepoPatch: the tree builder of
  \<^verbatim>\<open>uploader.js\<close>, the source list of \<^verbatim>\<open>main.js\<close>, the content resolver of
  \<^verbatim>\<open>fileContent.js\<close> and the preview and apply functions of \<^verbatim>\<open>patcher.js\<close>.

  Conventions of the embedding.
  \<^item> A JavaScript string is a \<open>string\<close>; each \<open>char\<close> stands for one code unit below 256.
  \<^item> A value that may be \<^verbatim>\<open>null\<close> or \<^verbatim>\<open>undefined\<close> is an \<open>option\<close>; the two are not told
    apart, and truthiness of a string is written out (\<open>truthy\<close>).
  \<^item> A JavaScript object used as a dictionary is an association list (the tree, whose
    insertion order is kept) or a map \<open>string \<rightharpoonup> 'v\<close>. Only own properties are looked up:
    names inherited from \<^verbatim>\<open>Object.prototype\<close> are outside the model.
  \<^item> The global \<^verbatim>\<open>state\<close> object is a record passed in and returned; the DOM elements the
    code writes are fields of a record \<open>ui\<close>.
  \<^item> Everything awaited is a parameter: the IndexedDB lookup, \<^verbatim>\<open>fetch\<close> and the jsdiff
    parser are functions giving the outcome of the call, a thrown exception being \<open>Inl\<close>
    of its message.
\<close>

subsection \<open>JavaScript string helpers\<close>

text \<open>Truthiness of a string: \<^verbatim>\<open>Boolean(s)\<close>.\<close>

definition truthy :: "string \<Rightarrow> bool" where
  "truthy s = (s \<noteq> [])"

text \<open>Truthiness of a string that may be absent: \<^verbatim>\<open>undefined\<close>, \<^verbatim>\<open>null\<close> and \<^verbatim>\<open>''\<close> are falsy.\<close>

definition truthy_opt :: "string option \<Rightarrow> bool" where
  "truthy_opt v = (case v of None \<Rightarrow> False | Some s \<Rightarrow> truthy s)"

text \<open>\<^verbatim>\<open>s.startsWith(pat)\<close>\<close>

definition startsWith :: "string \<Rightarrow> string \<Rightarrow> bool" where
  "startsWith s pat = (take (length pat) s = pat)"

text \<open>\<^verbatim>\<open>s.includes(pat)\<close>\<close>

fun js_includes :: "string \<Rightarrow> string \<Rightarrow> bool" where
  "js_includes [] pat = (pat = [])"
| "js_includes (c # cs) pat = (startsWith (c # cs) pat \<or> js_includes cs pat)"

text \<open>\<^verbatim>\<open>s.split(sep)\<close> for a separator that is one character out of a class.\<close>

fun split_on :: "(char \<Rightarrow> bool) \<Rightarrow> string \<Rightarrow> string list" where
  "split_on sep [] = [[]]"
| "split_on sep (c # cs) =
     (if sep c then [] # split_on sep cs
      else (case split_on sep cs of [] \<Rightarrow> [[c]] | w # ws \<Rightarrow> (c # w) # ws))"

text \<open>\<^verbatim>\<open>parts.join(sep)\<close>\<close>

fun join_with :: "string \<Rightarrow> string list \<Rightarrow> string" where
  "join_with sep [] = []"
| "join_with sep [x] = x"
| "join_with sep (x # y # ys) = x @ sep @ join_with sep (y # ys)"

text \<open>
  \<^verbatim>\<open>s.trim()\<close>. The white space and line terminators of ECMAScript below code unit 256:
  TAB, LF, VT, FF, CR, SPACE and NBSP.
\<close>

definition js_space :: "char \<Rightarrow> bool" where
  "js_space c = (c \<in> set [CHR 0x09, CHR 0x0A, CHR 0x0B, CHR 0x0C, CHR 0x0D, CHR 0x20, CHR 0xA0])"

definition trim :: "string \<Rightarrow> string" where
  "trim s = rev (dropWhile js_space (rev (dropWhile js_space s)))"

text \<open>\<^verbatim>\<open>s.replace(pat, rep)\<close> with a string pattern: the first occurrence only.\<close>

fun replace_first :: "string \<Rightarrow> string \<Rightarrow> string \<Rightarrow> string" where
  "replace_first pat rep [] = (if pat = [] then rep else [])"
| "replace_first pat rep (c # cs) =
     (if startsWith (c # cs) pat then rep @ drop (length pat) (c # cs)
      else c # replace_first pat rep cs)"

text \<open>\<^verbatim>\<open>s.replace(/\/+/g, '/')\<close>: every run of slashes becomes one slash.\<close>

fun collapse_slashes :: "string \<Rightarrow> string" where
  "collapse_slashes (c # d # cs) =
     (if c = CHR ''/'' \<and> d = CHR ''/'' then collapse_slashes (d # cs)
      else c # collapse_slashes (d # cs))"
| "collapse_slashes cs = cs"

text \<open>
  A number inside a template literal, \<^verbatim>\<open>${n}\<close>: the decimal digits of a natural number.
\<close>

definition digit_char :: "nat \<Rightarrow> char" where
  "digit_char d = char_of (of_char CHR ''0'' + d :: nat)"

function decimal :: "nat \<Rightarrow> string" where
  "decimal n =
     (if n div 10 = 0 then [digit_char n]
      else decimal (n div 10) @ [digit_char (n mod 10)])"
  by pat_completeness auto
termination
  by (relation "measure id") auto

declare decimal.simps [simp del]

subsection \<open>Tree builder (\<^verbatim>\<open>addToTree\<close> of uploader.js)\<close>

text \<open>
  A tree node is \<^verbatim>\<open>{ type: "file", path }\<close> or \<^verbatim>\<open>{ type: "folder", path, children }\<close>; a tree
  (the root, or the \<^verbatim>\<open>children\<close> of a folder) maps names to nodes.
\<close>

datatype node =
    File (node_path: string)
  | Folder (node_path: string) (children: "(string \<times> node) list")

type_synonym tree = "(string \<times> node) list"

text \<open>What \<^verbatim>\<open>addToTree\<close> writes to the console: \<^verbatim>\<open>console.warn\<close> and \<^verbatim>\<open>console.error\<close>.\<close>

datatype console_msg = Warn string | Error string

definition path_conflict_msg :: "string \<Rightarrow> string \<Rightarrow> string" where
  "path_conflict_msg part currentPath =
     ''Path conflict: trying to create directory part '' @ [CHR 0x27] @ part @ [CHR 0x27]
     @ '' but a file exists at '' @ [CHR 0x27] @ currentPath @ [CHR 0x27]
     @ ''. Skipping subtree.''"

definition folder_conflict_msg :: "string \<Rightarrow> string" where
  "folder_conflict_msg filePath =
     ''File path conflicts with existing folder structure: '' @ filePath"

text \<open>\<^verbatim>\<open>filePath.split('/').filter(Boolean)\<close>\<close>

definition path_parts :: "string \<Rightarrow> string list" where
  "path_parts filePath = filter truthy (split_on (\<lambda>c. c = CHR ''/'') filePath)"

text \<open>
  The loop of \<^verbatim>\<open>addToTree\<close> over \<^verbatim>\<open>parts\<close>. \<open>current\<close> is the object the loop variable
  \<^verbatim>\<open>current\<close> points to, \<open>seen\<close> the parts before index \<^verbatim>\<open>i\<close> (so that \<^verbatim>\<open>currentPath\<close> is
  the join of \<open>seen @ [part]\<close>), the third argument the parts from index \<^verbatim>\<open>i\<close> on. The source
  mutates the tree in place; the model returns the updated \<open>current\<close> together with the
  console output. \<^verbatim>\<open>current[part] = v\<close> is \<open>AList.update part v current\<close>: an existing key
  keeps its place, a new key goes to the end.
\<close>

fun addParts :: "tree \<Rightarrow> string list \<Rightarrow> string list \<Rightarrow> string \<Rightarrow> bool \<Rightarrow> tree \<times> console_msg list" where
  "addParts current seen [] filePath isDir = (current, [])"
| "addParts current seen [part] filePath isDir =
     (if \<not> isDir then
        (case map_of current part of
           None \<Rightarrow> (AList.update part (File filePath) current, [])
         | Some (File _) \<Rightarrow> (AList.update part (File filePath) current, [])
         | Some (Folder _ _) \<Rightarrow> (current, [Warn (folder_conflict_msg filePath)]))
      else
        (case map_of current part of
           None \<Rightarrow> (AList.update part (Folder filePath []) current, [])
         | Some _ \<Rightarrow> (current, [])))"
| "addParts current seen (part # rest) filePath isDir =
     (let currentPath = join_with ''/'' (seen @ [part]) in
      case map_of current part of
        None \<Rightarrow>
          (let (ch, msgs) = addParts [] (seen @ [part]) rest filePath isDir
           in (AList.update part (Folder currentPath ch) current, msgs))
      | Some (Folder p ch0) \<Rightarrow>
          (let (ch, msgs) = addParts ch0 (seen @ [part]) rest filePath isDir
           in (AList.update part (Folder p ch) current, msgs))
      | Some (File _) \<Rightarrow> (current, [Error (path_conflict_msg part currentPath)]))"

definition addToTree :: "tree \<Rightarrow> string \<Rightarrow> bool \<Rightarrow> tree \<times> console_msg list" where
  "addToTree tree filePath isDir = addParts tree [] (path_parts filePath) filePath isDir"

text \<open>
  Reading a tree along a list of segments, through folders only: the node a path names,
  if there is one.
\<close>

fun lookup_path :: "tree \<Rightarrow> string list \<Rightarrow> node option" where
  "lookup_path t [] = None"
| "lookup_path t [p] = map_of t p"
| "lookup_path t (p # ps) =
     (case map_of t p of Some (Folder _ ch) \<Rightarrow> lookup_path ch ps | _ \<Rightarrow> None)"

text \<open>No parent holds two children of the same name, at any depth.\<close>

fun unique_names_node :: "node \<Rightarrow> bool" where
  "unique_names_node (File p) = True"
| "unique_names_node (Folder p ch) =
     (distinct (map fst ch) \<and> (\<forall>kn \<in> set ch. unique_names_node (snd kn)))"

definition unique_names :: "tree \<Rightarrow> bool" where
  "unique_names t = (distinct (map fst t) \<and> (\<forall>kn \<in> set t. unique_names_node (snd kn)))"

text \<open>
  Bulk insertion as \<^verbatim>\<open>buildTreeFromZip\<close> and \<^verbatim>\<open>buildTreeFromFolder\<close> do it: every file path
  is added, in order, to a tree that starts as \<^verbatim>\<open>{}\<close>.
\<close>

definition addAll :: "tree \<Rightarrow> string list \<Rightarrow> tree" where
  "addAll tree filePaths = foldl (\<lambda>t p. fst (addToTree t p False)) tree filePaths"

subsection \<open>Application state (state.js) and the source list (main.js)\<close>

text \<open>
  An element of \<^verbatim>\<open>state.directories\<close>:
  \<^verbatim>\<open>{ id, type, path, name, tree, error }\<close>. The id is \<^verbatim>\<open>Date.now()\<close> at creation. \<^verbatim>\<open>type\<close> is
  \<^verbatim>\<open>'path'\<close> for a directory on the server and \<^verbatim>\<open>'uploaded'\<close> for a zip or folder upload; it is
  kept as the string the code compares it with.
\<close>

record directory =
  dir_id :: nat
  dir_type :: string
  dir_path :: "string option"
  dir_name :: "string option"
  dir_tree :: "tree option"
  dir_error :: "string option"

text \<open>The global \<^verbatim>\<open>state\<close> object.\<close>

record state =
  directories :: "directory list"
  selectedDirectoryId :: "nat option"
  baseEndpoint :: string
  failedFiles :: "string set"
  patchContent :: string

text \<open>\<^verbatim>\<open>!state.selectedDirectoryId\<close> is true for \<^verbatim>\<open>null\<close> and for the number 0.\<close>

definition truthy_id :: "nat option \<Rightarrow> bool" where
  "truthy_id v = (case v of None \<Rightarrow> False | Some n \<Rightarrow> n \<noteq> 0)"

text \<open>\<^verbatim>\<open>state.directories.find(d => d.id === dirId)\<close>\<close>

definition find_dir :: "state \<Rightarrow> nat \<Rightarrow> directory option" where
  "find_dir st dirId = find (\<lambda>d. dir_id d = dirId) (directories st)"

text \<open>
  The selection part of \<^verbatim>\<open>renderDirectoriesList\<close>. With no directories the selection is
  reset to \<^verbatim>\<open>null\<close> and the function returns. Otherwise \<^verbatim>\<open>validSelectionExists\<close> tells
  whether some directory has the selected id; if none has, the first directory is selected
  and the function calls itself again. The DOM nodes it builds are not modelled.
\<close>

definition validSelectionExists :: "state \<Rightarrow> bool" where
  "validSelectionExists st =
     list_ex (\<lambda>dir. Some (dir_id dir) = selectedDirectoryId st) (directories st)"

function renderDirectoriesList :: "state \<Rightarrow> state" where
  "renderDirectoriesList st =
     (case directories st of
        [] \<Rightarrow> st\<lparr>selectedDirectoryId := None\<rparr>
      | first # _ \<Rightarrow>
          if \<not> validSelectionExists st
          then renderDirectoriesList (st\<lparr>selectedDirectoryId := Some (dir_id first)\<rparr>)
          else st)"
  by pat_completeness auto
termination
  by (relation "measure (\<lambda>st. if validSelectionExists st then 0 else 1)")
     (auto simp: validSelectionExists_def)

declare renderDirectoriesList.simps [simp del]

text \<open>
  The click listener of a directory's Remove button; \<open>dirId\<close> is the id of the directory
  the button belongs to and \<open>confirmed\<close> the answer of the \<^verbatim>\<open>confirm\<close> dialog. The debounced
  preview it schedules runs later and does not touch the selection.
\<close>

definition removeBtn_click :: "bool \<Rightarrow> nat \<Rightarrow> state \<Rightarrow> state" where
  "removeBtn_click confirmed dirId st =
     (if confirmed then
        let st1 = st\<lparr>directories := filter (\<lambda>d. dir_id d \<noteq> dirId) (directories st)\<rparr>;
            st2 = (if selectedDirectoryId st1 = Some dirId
                   then st1\<lparr>selectedDirectoryId :=
                          (case directories st1 of [] \<Rightarrow> None | d # _ \<Rightarrow> Some (dir_id d))\<rparr>
                   else st1)
        in renderDirectoriesList st2
      else st)"

text \<open>
  The selection invariant of the source list: the selected id is unset or is the id of a
  directory in the list.
\<close>

definition selection_ok :: "state \<Rightarrow> bool" where
  "selection_ok st =
     (case selectedDirectoryId st of
        None \<Rightarrow> True
      | Some s \<Rightarrow> list_ex (\<lambda>d. dir_id d = s) (directories st))"

subsection \<open>Transport (\<^verbatim>\<open>tryFetchWithFallback\<close> of connection.js)\<close>

text \<open>
  What the code reads of a \<^verbatim>\<open>Response\<close>: \<^verbatim>\<open>ok\<close>, \<^verbatim>\<open>status\<close>, the outcome of \<^verbatim>\<open>text()\<close> (\<open>None\<close>
  when that promise rejects) and the outcome of \<^verbatim>\<open>json()\<close> (\<open>Inl\<close> of the message when it
  throws).
\<close>

record 'd response =
  resp_ok :: bool
  resp_status :: nat
  resp_text :: "string option"
  resp_json :: "string + 'd"

text \<open>
  The network: the outcome of the \<open>n\<close>-th call of \<^verbatim>\<open>fetch\<close> within one operation, for a url
  and a request body; \<open>Inl\<close> is the message of the error \<^verbatim>\<open>fetch\<close> throws.
\<close>

type_synonym ('b, 'd) network = "nat \<Rightarrow> string \<Rightarrow> 'b \<Rightarrow> string + 'd response"

text \<open>
  \<^verbatim>\<open>tryFetchWithFallback(url, options)\<close>: a url that starts with a slash is fetched once;
  any other url is fetched, and unless that gives an \<^verbatim>\<open>ok\<close> response it is fetched again
  with \<^verbatim>\<open>https://\<close> replaced by \<^verbatim>\<open>http://\<close>. The result is the outcome together with the
  list of the \<^verbatim>\<open>fetch\<close> calls made.
\<close>

definition tryFetchWithFallback ::
  "('b, 'd) network \<Rightarrow> string \<Rightarrow> 'b \<Rightarrow> (string + 'd response) \<times> (string \<times> 'b) list" where
  "tryFetchWithFallback fetch url body =
     (if startsWith url ''/'' then (fetch 0 url body, [(url, body)])
      else
        let httpUrl = replace_first ''https://'' ''http://'' url;
            fallback = (fetch 1 httpUrl body, [(url, body), (httpUrl, body)])
        in case fetch 0 url body of
             Inr response \<Rightarrow> if resp_ok response then (Inr response, [(url, body)]) else fallback
           | Inl httpsError \<Rightarrow> fallback)"

subsection \<open>Uploaded-file store (\<^verbatim>\<open>getUploadedFile\<close> of db.js)\<close>

text \<open>
  The object store, seen through a read-only transaction on one key: \<open>Inr (Some content)\<close>
  for a stored record, \<open>Inr None\<close> when there is none (the function resolves to \<^verbatim>\<open>null\<close>),
  \<open>Inl message\<close> when the database cannot be opened or the transaction fails or aborts.
\<close>

type_synonym object_store = "string \<Rightarrow> string + string option"

definition getUploadedFile :: "object_store \<Rightarrow> nat \<Rightarrow> string \<Rightarrow> string + string option" where
  "getUploadedFile store dirId filePath = store (decimal dirId @ '':'' @ filePath)"

subsection \<open>Content resolver (\<^verbatim>\<open>fetchPatchRequiredFiles\<close> of fileContent.js)\<close>

text \<open>\<^verbatim>\<open>PathUtils.join(first, ...others)\<close>\<close>

definition PathUtils_join :: "string \<Rightarrow> string list \<Rightarrow> string" where
  "PathUtils_join first others =
     (let parts = filter truthy
            (concat (map (split_on (\<lambda>c. c = CHR 0x5C \<or> c = CHR ''/'')) (first # others)));
          result0 = (case parts of [] \<Rightarrow> [] | p # _ \<Rightarrow> p);
          result1 = (if startsWith first ''/'' then ''/'' @ result0 else result0);
          result = foldl (\<lambda>r part. r @ ''/'' @ part) result1 (tl parts)
      in collapse_slashes result)"

text \<open>A value of the result map: \<^verbatim>\<open>{ content, error }\<close>.\<close>

record fetched_file =
  content :: "string option"
  error :: "string option"

type_synonym fetch_results = "string \<rightharpoonup> fetched_file"

text \<open>
  The body of \<^verbatim>\<open>POST /api/files\<close> as the code reads it:
  \<^verbatim>\<open>{ success, files: { [absPath]: { success, content, error } }, error }\<close>.
\<close>

record file_result =
  fr_success :: bool
  fr_content :: "string option"
  fr_error :: "string option"

record files_data =
  fd_success :: bool
  fd_files :: "(string \<rightharpoonup> file_result) option"
  fd_error :: "string option"

text \<open>An exception that leaves \<^verbatim>\<open>fetchPatchRequiredFiles\<close>: the promise it returns rejects.\<close>

datatype js_exception = TypeError

text \<open>
  \<^verbatim>\<open>filePaths.forEach(p => { results.set(p, { content: null, error: msg }); })\<close>, with
  or without \<^verbatim>\<open>state.failedFiles.add(p)\<close>.
\<close>

definition set_all_error :: "string \<Rightarrow> string list \<Rightarrow> fetch_results \<Rightarrow> fetch_results" where
  "set_all_error msg filePaths results =
     fold (\<lambda>p r. r(p \<mapsto> \<lparr>content = None, error = Some msg\<rparr>)) filePaths results"

definition add_all_failed :: "string list \<Rightarrow> string set \<Rightarrow> string set" where
  "add_all_failed filePaths failed = fold insert filePaths failed"

text \<open>One round of the loop over the uploaded files. The lookups run concurrently in the
  source; each writes only its own key, with a value that depends on that key alone.\<close>

definition uploaded_step ::
  "object_store \<Rightarrow> nat \<Rightarrow> string \<Rightarrow> fetch_results \<times> string set \<Rightarrow> fetch_results \<times> string set" where
  "uploaded_step store dirId filePath acc =
     (case acc of (results, failed) \<Rightarrow>
        (case getUploadedFile store dirId filePath of
           Inr (Some c) \<Rightarrow> (results(filePath \<mapsto> \<lparr>content = Some c, error = None\<rparr>), failed)
         | Inr None \<Rightarrow>
             (results(filePath \<mapsto> \<lparr>content = None,
                error = Some ''File not found in uploaded data (may be deleted by patch)''\<rparr>),
              failed)
         | Inl message \<Rightarrow>
             (results(filePath \<mapsto> \<lparr>content = None, error = Some (''DB error: '' @ message)\<rparr>),
              insert filePath failed)))"

text \<open>One round of the first loop over a successful batch response: \<open>ar\<close> is the pair of
  \<^verbatim>\<open>absPath\<close> and \<^verbatim>\<open>filePaths[index]\<close>.\<close>

definition server_step ::
  "(string \<rightharpoonup> file_result) \<Rightarrow> string \<times> string \<Rightarrow> fetch_results \<times> string set
     \<Rightarrow> fetch_results \<times> string set" where
  "server_step files ar acc =
     (case (ar, acc) of ((absPath, relPath), (results, failed)) \<Rightarrow>
        (case files absPath of
           Some result \<Rightarrow>
             if fr_success result
             then (results(relPath \<mapsto> \<lparr>content = fr_content result, error = None\<rparr>), failed)
             else
               (results(relPath \<mapsto> \<lparr>content = None, error = fr_error result\<rparr>),
                if truthy_opt (fr_error result)
                   \<and> \<not> js_includes (the (fr_error result)) ''not found''
                then insert relPath failed else failed)
         | None \<Rightarrow>
             (results(relPath \<mapsto> \<lparr>content = None,
                error = Some ''File not found by server (may be deleted by patch)''\<rparr>),
              failed)))"

text \<open>One round of the second loop: a path that has no entry yet.\<close>

definition missing_step :: "string \<Rightarrow> fetch_results \<times> string set \<Rightarrow> fetch_results \<times> string set" where
  "missing_step relPath acc =
     (case acc of (results, failed) \<Rightarrow>
        if results relPath = None
        then (results(relPath \<mapsto> \<lparr>content = None,
                error = Some ''No response from server for this file.''\<rparr>),
              insert relPath failed)
        else (results, failed))"

text \<open>The \<^verbatim>\<open>catch\<close> block of the batch request.\<close>

definition network_error ::
  "string \<Rightarrow> string list \<Rightarrow> fetch_results \<times> string set \<Rightarrow> fetch_results \<times> string set" where
  "network_error message filePaths acc =
     (case acc of (results, failed) \<Rightarrow>
        (set_all_error (''Network error: '' @ message) filePaths results,
         add_all_failed filePaths failed))"

text \<open>The \<^verbatim>\<open>try\<close> block of the batch request, from the response on.\<close>

definition batch_response ::
  "string + files_data response \<Rightarrow> string list \<Rightarrow> string list
     \<Rightarrow> fetch_results \<times> string set \<Rightarrow> fetch_results \<times> string set" where
  "batch_response outcome absolutePathsToFetch filePaths acc =
     (case outcome of
        Inl message \<Rightarrow> network_error message filePaths acc
      | Inr response \<Rightarrow>
          if \<not> resp_ok response then
            let errorText = (case resp_text response of
                               Some t \<Rightarrow> t
                             | None \<Rightarrow> ''HTTP '' @ decimal (resp_status response))
            in network_error (''Server error: '' @ decimal (resp_status response) @ '' - ''
                              @ take 100 errorText) filePaths acc
          else
            (case resp_json response of
               Inl message \<Rightarrow> network_error message filePaths acc
             | Inr data \<Rightarrow>
                 (case (fd_success data, fd_files data) of
                    (True, Some files) \<Rightarrow>
                      fold missing_step filePaths
                        (fold (server_step files) (zip absolutePathsToFetch filePaths) acc)
                  | _ \<Rightarrow>
                      let errorMsg = (if truthy_opt (fd_error data) then the (fd_error data)
                                      else ''Batch fetch failed with unknown server error'')
                      in (case acc of (results, failed) \<Rightarrow>
                            (set_all_error errorMsg filePaths results,
                             add_all_failed filePaths failed)))))"

text \<open>
  \<^verbatim>\<open>fetchPatchRequiredFiles(dirId, filePaths)\<close>. The result is what the promise settles to
  (\<open>Inr\<close> the map, \<open>Inl\<close> an exception) together with the state, of which only
  \<^verbatim>\<open>failedFiles\<close> changes. \<^verbatim>\<open>PathUtils.join(dir.path, p)\<close> calls \<^verbatim>\<open>split\<close> on \<^verbatim>\<open>dir.path\<close>, outside
  the \<^verbatim>\<open>try\<close> block: with no path and at least one file path that is a TypeError.
\<close>

definition fetchPatchRequiredFiles ::
  "object_store \<Rightarrow> (string list, files_data) network \<Rightarrow> state \<Rightarrow> nat \<Rightarrow> string list
     \<Rightarrow> (js_exception + fetch_results) \<times> state" where
  "fetchPatchRequiredFiles store fetch st dirId filePaths =
     (let st0 = st\<lparr>failedFiles := {}\<rparr>;
          finish = (\<lambda>acc. (Inr (fst acc), st0\<lparr>failedFiles := snd acc\<rparr>));
          acc0 = (Map.empty, {})
      in case find_dir st0 dirId of
           None \<Rightarrow> finish (set_all_error ''Target directory not found'' filePaths Map.empty, {})
         | Some dir \<Rightarrow>
             if dir_type dir = ''uploaded'' then
               finish (fold (uploaded_step store (dir_id dir)) filePaths acc0)
             else if dir_type dir = ''path'' then
               (case dir_path dir of
                  None \<Rightarrow> if filePaths = [] then finish acc0 else (Inl TypeError, st0)
                | Some root \<Rightarrow>
                    let absolutePathsToFetch = map (\<lambda>p. PathUtils_join root [p]) filePaths in
                    if length absolutePathsToFetch > 0 then
                      let url = baseEndpoint st0 @ ''/api/files'';
                          outcome = fst (tryFetchWithFallback fetch url absolutePathsToFetch)
                      in finish (batch_response outcome absolutePathsToFetch filePaths acc0)
                    else finish acc0)
             else
               finish (set_all_error (''Unsupported directory type: '' @ dir_type dir)
                         filePaths Map.empty,
                       add_all_failed filePaths {}))"

text \<open>The entry of a path in what the call returned, if it returned a map with one.\<close>

definition entry_of :: "js_exception + fetch_results \<Rightarrow> string \<Rightarrow> fetched_file option" where
  "entry_of returned p = (case returned of Inr results \<Rightarrow> results p | Inl _ \<Rightarrow> None)"

subsection \<open>Patch preview and apply (patcher.js)\<close>

text \<open>
  A parsed file patch of jsdiff as the code reads it: \<^verbatim>\<open>{ oldFileName, newFileName, hunks }\<close>
  with hunks \<^verbatim>\<open>{ header, lines }\<close>. \<open>hunks = None\<close> and \<open>hunk_lines = None\<close> stand for a value
  that is not an array.
\<close>

record hunk =
  hunk_header :: "string option"
  hunk_lines :: "string list option"

record patch =
  oldFileName :: "string option"
  newFileName :: "string option"
  hunks :: "hunk list option"

text \<open>
  \<^verbatim>\<open>Diff.parsePatch\<close>: \<open>Inl\<close> the message when it throws, \<open>Inr None\<close> for a falsy result,
  \<open>Inr (Some patches)\<close> for an array.
\<close>

type_synonym diff_parser = "string \<Rightarrow> string + patch list option"

text \<open>
  The DOM the patcher writes: the two status elements (\<^verbatim>\<open>textContent\<close>, \<^verbatim>\<open>className\<close>), the
  \<^verbatim>\<open>innerHTML\<close> of the preview element, the \<^verbatim>\<open>disabled\<close> flag of the Apply button and the
  \<^verbatim>\<open>alert\<close> boxes shown. The list of failed files is drawn from \<^verbatim>\<open>state.failedFiles\<close> and has
  no field of its own.
\<close>

record status_el =
  textContent :: string
  className :: string

record ui =
  previewStatus :: status_el
  applyStatus :: status_el
  patchPreview :: string
  applyDisabled :: bool
  alerts :: "string list"

text \<open>\<^verbatim>\<open>setStatus(element, message, isError = false)\<close>: the element after the call.\<close>

definition setStatus :: "string \<Rightarrow> bool \<Rightarrow> status_el" where
  "setStatus message isError =
     \<lparr>textContent = message,
      className = (if isError then ''error''
                   else if js_includes message ''success'' then ''success'' else '''')\<rparr>"

text \<open>\<^verbatim>\<open>escapeHtml\<close>: five global replacements of one character each, in the source's order.\<close>

definition replace_char :: "char \<Rightarrow> string \<Rightarrow> string \<Rightarrow> string" where
  "replace_char c rep s = concat (map (\<lambda>x. if x = c then rep else [x]) s)"

definition escapeHtml :: "string \<Rightarrow> string" where
  "escapeHtml unsafe =
     (if \<not> truthy unsafe then ''''
      else replace_char (CHR 0x27) ''&#039;''
             (replace_char (CHR 0x22) ''&quot;''
               (replace_char CHR ''>'' ''&gt;''
                 (replace_char CHR ''<'' ''&lt;''
                   (replace_char CHR ''&'' ''&amp;'' unsafe)))))"

text \<open>\<^verbatim>\<open>parsePatch(patchContent)\<close>: the patches or \<^verbatim>\<open>null\<close>, and the preview status it may set.\<close>

definition parsePatch :: "diff_parser \<Rightarrow> string \<Rightarrow> ui \<Rightarrow> patch list option \<times> ui" where
  "parsePatch parser patchText u =
     (case parser patchText of
        Inl message \<Rightarrow>
          (None, u\<lparr>previewStatus := setStatus (''Error parsing patch: '' @ message) True\<rparr>)
      | Inr None \<Rightarrow>
          (None, u\<lparr>previewStatus :=
                     (if truthy (trim patchText)
                      then setStatus ''Error: Invalid patch format.'' True
                      else setStatus '''' False)\<rparr>)
      | Inr (Some []) \<Rightarrow>
          (None, u\<lparr>previewStatus :=
                     (if truthy (trim patchText)
                      then setStatus ''Error: Invalid patch format.'' True
                      else setStatus '''' False)\<rparr>)
      | Inr (Some (first # others)) \<Rightarrow>
          if \<not> truthy_opt (oldFileName first) \<or> \<not> truthy_opt (newFileName first)
             \<or> hunks first = None
          then (None, u\<lparr>previewStatus :=
                          setStatus ''Error: Parsed patch structure invalid.'' True\<rparr>)
          else (Some (first # others), u))"

text \<open>\<^verbatim>\<open>clearPreview()\<close>\<close>

definition clearPreview :: "state \<times> ui \<Rightarrow> state \<times> ui" where
  "clearPreview su =
     (case su of (st, u) \<Rightarrow>
        (st\<lparr>failedFiles := {}\<rparr>,
         u\<lparr>patchPreview := '''', previewStatus := setStatus '''' False,
           applyStatus := setStatus '''' False, applyDisabled := True\<rparr>))"

text \<open>\<^verbatim>\<open>updateApplyButtonState(selectedDirType)\<close> of patcher.js.\<close>

definition updateApplyButtonState :: "state \<Rightarrow> string option \<Rightarrow> ui \<Rightarrow> ui" where
  "updateApplyButtonState st selectedDirType u =
     (let patchContentExists =
            (truthy (patchContent st) \<and> length (trim (patchContent st)) > 0);
          u1 = u\<lparr>applyDisabled := \<not> (selectedDirType = Some ''path'' \<and> patchContentExists)\<rparr>
      in if selectedDirType = Some ''uploaded'' \<and> patchContentExists
         then u1\<lparr>applyStatus := setStatus ''Cannot apply patch to uploaded sources.'' True\<rparr>
         else if selectedDirType = Some ''path'' \<and> \<not> patchContentExists
         then u1\<lparr>applyStatus := setStatus ''Paste patch content to enable apply.'' False\<rparr>
         else if selectedDirType \<noteq> Some ''path''
         then u1\<lparr>applyStatus := setStatus '''' False\<rparr>
         else u1)"

text \<open>
  \<^verbatim>\<open>name.startsWith(prefix) ? name.substring(2) : name\<close>, for the prefixes \<^verbatim>\<open>a/\<close> and \<^verbatim>\<open>b/\<close>.
\<close>

definition strip_prefix :: "string \<Rightarrow> string \<Rightarrow> string" where
  "strip_prefix prefix name = (if startsWith name prefix then drop 2 name else name)"

text \<open>\<^verbatim>\<open>set.add(x)\<close> on a \<^verbatim>\<open>Set\<close>, which keeps its elements in insertion order.\<close>

definition set_add :: "string \<Rightarrow> string list \<Rightarrow> string list" where
  "set_add x xs = (if x \<in> set xs then xs else xs @ [x])"

text \<open>
  The loop of \<^verbatim>\<open>generatePatchPreview\<close> that fills \<^verbatim>\<open>requiredFilesRelative\<close>, and
  \<^verbatim>\<open>Array.from\<close> of the set. The loop also looks at \<^verbatim>\<open>newFileName\<close>, to no effect: the
  \<^verbatim>\<open>add\<close> is commented out.
\<close>

definition requiredFilesRelative :: "patch list \<Rightarrow> string list" where
  "requiredFilesRelative parsedPatches =
     foldl (\<lambda>required patch.
              if truthy_opt (oldFileName patch) \<and> oldFileName patch \<noteq> Some ''/dev/null''
              then set_add (strip_prefix ''a/'' (the (oldFileName patch))) required
              else required)
       [] parsedPatches"

text \<open>One line of a hunk.\<close>

definition render_line :: "string \<Rightarrow> string" where
  \<open>render_line line =
     (let lineContent = escapeHtml (drop 1 line) in
      case line of
        [] \<Rightarrow> ''<span class="diff-context">'' @ escapeHtml line @ ''</span>'' @ [CHR 0x0A]
      | prefix # _ \<Rightarrow>
          if prefix = CHR ''+'' then
            ''<span class="diff-added">+ '' @ lineContent @ ''</span>'' @ [CHR 0x0A]
          else if prefix = CHR ''-'' then
            ''<span class="diff-removed">- '' @ lineContent @ ''</span>'' @ [CHR 0x0A]
          else if prefix = CHR '' '' then
            ''<span class="diff-context">  '' @ lineContent @ ''</span>'' @ [CHR 0x0A]
          else ''<span class="diff-context">'' @ escapeHtml line @ ''</span>'' @ [CHR 0x0A])\<close>

text \<open>One hunk, \<open>hunkIndex\<close> being its index in \<^verbatim>\<open>patch.hunks\<close>.\<close>

definition render_hunk :: "nat \<Rightarrow> hunk \<Rightarrow> string" where
  \<open>render_hunk hunkIndex h =
     ''<span class="diff-header">''
     @ (if truthy_opt (hunk_header h) then the (hunk_header h)
        else ''@@ Hunk '' @ decimal (hunkIndex + 1) @ '' @@'')
     @ ''</span>'' @ [CHR 0x0A]
     @ (case hunk_lines h of
          None \<Rightarrow> ''<span class="diff-error">  Error: Invalid hunk lines format.</span>''
                  @ [CHR 0x0A]
        | Some lines \<Rightarrow> concat (map render_line lines))\<close>

text \<open>
  One round of the loop over \<^verbatim>\<open>parsedPatches\<close>: the HTML it appends and the key it pushes
  to \<^verbatim>\<open>filesWithErrors\<close>, if any. \<^verbatim>\<open>${fileKey}\<close> of an absent key prints \<^verbatim>\<open>undefined\<close>. The
  test \<^verbatim>\<open>fileData.content === null\<close> is read as "the entry has no content".
\<close>

definition render_patch :: "fetch_results \<Rightarrow> patch \<Rightarrow> string \<times> string option list" where
  \<open>render_patch fetchedFiles p =
     (let oldRelPath = map_option (strip_prefix ''a/'') (oldFileName p);
          newRelPath = map_option (strip_prefix ''b/'') (newFileName p);
          fileKey = (if truthy_opt oldRelPath \<and> oldRelPath \<noteq> Some ''/dev/null''
                     then oldRelPath else newRelPath);
          fileData = (case fileKey of None \<Rightarrow> None | Some k \<Rightarrow> fetchedFiles k);
          header = ''<div class="diff-file-header">''
                   @ ''<strong>File: ''
                   @ (case fileKey of None \<Rightarrow> ''undefined'' | Some k \<Rightarrow> k)
                   @ ''</strong>'';
          hasError = (case fileData of
                        None \<Rightarrow> False
                      | Some d \<Rightarrow> truthy_opt (error d)
                                  \<and> \<not> js_includes (the (error d)) ''not found'');
          note =
            (if hasError then
               '' <span class="diff-error">(Error: '' @ the (error (the fileData)) @ '')</span>''
             else if fileData = None \<or> content (the fileData) = None then
               (if oldFileName p = Some ''/dev/null'' \<or> newFileName p = Some ''/dev/null''
                then '' <span class="diff-info">(''
                     @ (if newFileName p = Some ''/dev/null'' then ''Deletion'' else ''New File'')
                     @ '')</span>''
                else '' <span class="diff-warning">(Original not found - assuming empty)</span>'')
             else '''');
          body =
            (case hunks p of
               None \<Rightarrow> ''<div class="diff-info">  (No content changes in patch)</div>''
                       @ [CHR 0x0A]
             | Some [] \<Rightarrow> ''<div class="diff-info">  (No content changes in patch)</div>''
                          @ [CHR 0x0A]
             | Some hs \<Rightarrow>
                 concat (map (\<lambda>(hunkIndex, h). render_hunk hunkIndex h)
                           (zip [0 ..< length hs] hs))
                 @ [CHR 0x0A])
      in (header @ note @ ''</div>'' @ [CHR 0x0A] @ body,
          if hasError then [fileKey] else []))\<close>

text \<open>
  \<^verbatim>\<open>generatePatchPreview(patchContent)\<close>. The result is the exception with which the promise
  rejects, if it does (the one of \<^verbatim>\<open>fetchPatchRequiredFiles\<close>), the state and the DOM.
\<close>

definition generatePatchPreview ::
  "object_store \<Rightarrow> (string list, files_data) network \<Rightarrow> diff_parser \<Rightarrow> string
     \<Rightarrow> state \<times> ui \<Rightarrow> js_exception option \<times> state \<times> ui" where
  "generatePatchPreview store fetch parser patchText su =
     (case clearPreview su of (st, u) \<Rightarrow>
        if \<not> truthy (trim patchText) then
          (None, st, u\<lparr>previewStatus := setStatus ''Paste patch content to see preview.'' False\<rparr>)
        else if \<not> truthy_id (selectedDirectoryId st) then
          (None, st, u\<lparr>previewStatus := setStatus ''Select a project source first.'' True\<rparr>)
        else
          (case find_dir st (the (selectedDirectoryId st)) of
             None \<Rightarrow>
               (None, st,
                u\<lparr>previewStatus := setStatus ''Selected project source not found.'' True\<rparr>)
           | Some dir \<Rightarrow>
               if truthy_opt (dir_error dir) then
                 (None, st,
                  u\<lparr>previewStatus :=
                      setStatus (''Cannot preview: Source has error - '' @ the (dir_error dir))
                        True\<rparr>)
               else
                 (case parsePatch parser patchText
                         (u\<lparr>previewStatus := setStatus ''Parsing patch...'' False\<rparr>) of
                    (None, u1) \<Rightarrow> (None, st, u1)
                  | (Some parsedPatches, u1) \<Rightarrow>
                      let required = requiredFilesRelative parsedPatches in
                      if length required = 0 then
                        (None, st,
                         u1\<lparr>previewStatus :=
                              setStatus ''Patch seems empty or only affects /dev/null.'' True\<rparr>)
                      else
                        let u2 = u1\<lparr>previewStatus :=
                                     setStatus (''Workspaceing '' @ decimal (length required)
                                                @ '' file(s)...'') False\<rparr>
                        in (case fetchPatchRequiredFiles store fetch st
                                   (the (selectedDirectoryId st)) required of
                              (Inl exn, st1) \<Rightarrow> (Some exn, st1, u2)
                            | (Inr fetchedFiles, st1) \<Rightarrow>
                                let rendered = map (render_patch fetchedFiles) parsedPatches;
                                    previewHTML = concat (map fst rendered);
                                    filesWithErrors = concat (map snd rendered);
                                    u3 = u2\<lparr>patchPreview := previewHTML\<rparr>;
                                    u4 = u3\<lparr>previewStatus :=
                                      (if length filesWithErrors > 0 then
                                         setStatus (''Preview generated with errors in ''
                                                    @ decimal (length filesWithErrors)
                                                    @ '' file(s).'') True
                                       else if failedFiles st1 \<noteq> {} then
                                         setStatus
                                           ''Preview generated. Some files failed to fetch.'' True
                                       else setStatus ''Preview generated successfully.'' False)\<rparr>
                                in (None, st1,
                                    updateApplyButtonState st1 (Some (dir_type dir)) u4)))))"

text \<open>
  The body of \<^verbatim>\<open>POST /api/apply_patch\<close> as the code reads it:
  \<^verbatim>\<open>{ success, appliedFiles, error, details }\<close>. The request carries \<^verbatim>\<open>directoryPath\<close> and
  \<^verbatim>\<open>patchContent\<close>.
\<close>

record apply_data =
  ad_success :: bool
  ad_appliedFiles :: "string list option"
  ad_error :: "string option"
  ad_details :: "string list option"

text \<open>
  \<^verbatim>\<open>applyPatch(patchContent)\<close>: the DOM afterwards and the \<^verbatim>\<open>fetch\<close> calls made, in order. The
  state is only read.
\<close>

definition applyPatch ::
  "(string \<times> string, apply_data) network \<Rightarrow> string \<Rightarrow> state \<Rightarrow> ui
     \<Rightarrow> ui \<times> (string \<times> string \<times> string) list" where
  "applyPatch fetch patchText st u =
     (if \<not> truthy_id (selectedDirectoryId st) then
        (u\<lparr>applyStatus := setStatus ''Error: No project source selected.'' True\<rparr>, [])
      else
        (case find_dir st (the (selectedDirectoryId st)) of
           None \<Rightarrow>
             (u\<lparr>applyStatus := setStatus ''Error: Selected project source not found.'' True\<rparr>, [])
         | Some dir \<Rightarrow>
             if dir_type dir = ''uploaded'' then
               (u\<lparr>applyStatus :=
                    setStatus ''Error: Cannot apply patch to uploaded directories.'' True,
                  alerts := alerts u @
                    [''Applying patches directly to uploaded directories is not supported. ''
                     @ ''Please use a server path source.'']\<rparr>, [])
             else if \<not> truthy_opt (dir_path dir) then
               (u\<lparr>applyStatus := setStatus ''Error: Selected source has no valid path.'' True\<rparr>,
                [])
             else if \<not> truthy (trim patchText) then
               (u\<lparr>applyStatus := setStatus ''Error: Patch content is empty.'' True\<rparr>, [])
             else
               let u1 = u\<lparr>applyDisabled := True,
                          applyStatus := setStatus ''Applying patch...'' False\<rparr>;
                   url = baseEndpoint st @ ''/api/apply_patch'';
                   sent = tryFetchWithFallback fetch url (the (dir_path dir), patchText);
                   failed = (\<lambda>message.
                     u1\<lparr>applyStatus := setStatus (''Network/Request error: '' @ message) True,
                        alerts := alerts u1 @ [''Failed to send patch request: '' @ message]\<rparr>);
                   u2 =
                     (case fst sent of
                        Inl message \<Rightarrow> failed message
                      | Inr response \<Rightarrow>
                          (case resp_json response of
                             Inl message \<Rightarrow> failed message
                           | Inr data \<Rightarrow>
                               let applied = (case ad_appliedFiles data of
                                                None \<Rightarrow> [] | Some fs \<Rightarrow> fs)
                               in if resp_ok response \<and> ad_success data then
                                    u1\<lparr>applyStatus :=
                                         setStatus (''Patch applied successfully to ''
                                                    @ decimal (length applied) @ '' file(s).'')
                                           False,
                                       alerts := alerts u1 @
                                         [''Patch applied successfully!'' @ [CHR 0x0A]
                                          @ ''Files affected:'' @ [CHR 0x0A]
                                          @ join_with [CHR 0x0A] applied]\<rparr>
                                  else
                                    let errorMsg =
                                          (if truthy_opt (ad_error data) then the (ad_error data)
                                           else ''Server responded with status ''
                                                @ decimal (resp_status response));
                                        details =
                                          (case ad_details data of
                                             None \<Rightarrow> ''''
                                           | Some ds \<Rightarrow> [CHR 0x0A] @ ''Details:'' @ [CHR 0x0A]
                                                        @ join_with [CHR 0x0A] ds);
                                        appliedCount = length applied;
                                        finalError =
                                          ''Error applying patch: '' @ errorMsg
                                          @ (if appliedCount > 0
                                             then '' ('' @ decimal appliedCount
                                                  @ '' file(s) might have been partially applied).''
                                             else '''')
                                    in u1\<lparr>applyStatus := setStatus finalError True,
                                          alerts := alerts u1 @
                                            [''Patch application failed: '' @ errorMsg
                                             @ details]\<rparr>))
               in (updateApplyButtonState st (Some (dir_type dir)) u2,
                   map (\<lambda>(url, body). (url, fst body, snd body)) (snd sent))))"

subsection \<open>Sample inputs\<close>

text \<open>
  A source list with a server directory rooted at \<^verbatim>\<open>/root\<close> (id 7) and an upload (id 9), the
  server directory selected; the failure set still holds a path of an earlier cycle.
\<close>

definition sample_state :: state where
  "sample_state =
     \<lparr>directories =
        [\<lparr>dir_id = 7, dir_type = ''path'', dir_path = Some ''/root'', dir_name = Some ''root'',
          dir_tree = None, dir_error = None\<rparr>,
         \<lparr>dir_id = 9, dir_type = ''uploaded'', dir_path = None, dir_name = Some ''upload'',
          dir_tree = Some [], dir_error = None\<rparr>],
      selectedDirectoryId = Some 7, baseEndpoint = '''', failedFiles = {''stale.txt''},
      patchContent = ''''\<rparr>"

text \<open>An object store that has no record under \<^verbatim>\<open>9:a.txt\<close>, fails on \<^verbatim>\<open>9:b.txt\<close> and holds
  text under every other key.\<close>

definition sample_store :: object_store where
  "sample_store key =
     (if key = ''9:a.txt'' then Inr None
      else if key = ''9:b.txt'' then Inl ''Transaction aborted: quota''
      else Inr (Some ''text''))"

text \<open>A server whose batch response is \<^verbatim>\<open>{ success: true, files }\<close> for a given \<^verbatim>\<open>files\<close>.\<close>

definition batch_ok :: "(string \<rightharpoonup> file_result) \<Rightarrow> (string list, files_data) network" where
  "batch_ok files n url body =
     Inr \<lparr>resp_ok = True, resp_status = 200, resp_text = None,
          resp_json = Inr \<lparr>fd_success = True, fd_files = Some files, fd_error = None\<rparr>\<rparr>"

text \<open>The server knows \<^verbatim>\<open>/root/b.txt\<close> only.\<close>

definition files_b_only :: "string \<rightharpoonup> file_result" where
  "files_b_only =
     [''/root/b.txt'' \<mapsto> \<lparr>fr_success = True, fr_content = Some ''bee'', fr_error = None\<rparr>]"

text \<open>The server reports success for \<^verbatim>\<open>/root/a.txt\<close> and sends no content.\<close>

definition files_a_bare :: "string \<rightharpoonup> file_result" where
  "files_a_bare =
     [''/root/a.txt'' \<mapsto> \<lparr>fr_success = True, fr_content = None, fr_error = None\<rparr>]"

text \<open>A page that still shows an earlier preview.\<close>

definition sample_ui :: ui where
  "sample_ui =
     \<lparr>previewStatus = \<lparr>textContent = ''Preview generated successfully.'', className = ''success''\<rparr>,
      applyStatus = \<lparr>textContent = '''', className = ''''\<rparr>,
      patchPreview = ''<div>old preview</div>'', applyDisabled = False, alerts = []\<rparr>"

text \<open>A parser that reads every text as the creation of one file, \<^verbatim>\<open>/dev/null\<close> to
  \<^verbatim>\<open>b/new.txt\<close>.\<close>

definition parser_new_file :: diff_parser where
  "parser_new_file text =
     Inr (Some [\<lparr>oldFileName = Some ''/dev/null'', newFileName = Some ''b/new.txt'',
                 hunks = Some [\<lparr>hunk_header = Some ''@@ -0,0 +1 @@'',
                                hunk_lines = Some [''+hello'']\<rparr>]\<rparr>])"

text \<open>An apply service that cannot be reached.\<close>

definition apply_unreachable :: "(string \<times> string, apply_data) network" where
  "apply_unreachable n url body = Inl ''Failed to fetch''"

text \<open>The sample state with nothing selected, with the upload selected, and with a single
  selected server directory that has no path.\<close>

definition sample_state_none :: state where
  "sample_state_none = sample_state\<lparr>selectedDirectoryId := None\<rparr>"

definition sample_state_upload :: state where
  "sample_state_upload = sample_state\<lparr>selectedDirectoryId := Some 9\<rparr>"

definition sample_state_pathless :: state where
  "sample_state_pathless =
     sample_state\<lparr>directories :=
                    [\<lparr>dir_id = 11, dir_type = ''path'', dir_path = None, dir_name = None,
                      dir_tree = None, dir_error = None\<rparr>],
                  selectedDirectoryId := Some 11\<rparr>"

section \<open>Tree builder: conflict policy and file replacement\<close>

lemma addParts_terminal_folder:
  "lookup_path t ps = Some (Folder p ch) \<Longrightarrow>
   addParts t seen ps fp False = (t, [Warn (folder_conflict_msg fp)])"
proof (induction t seen ps fp False arbitrary: p ch rule: addParts.induct)
  case (1 current seen filePath)
  then show ?case by simp
next
  case (2 current seen part filePath)
  then show ?case by simp
next
  case (3 current seen part v va filePath)
  then show ?case
    by (auto split: option.splits node.splits simp: AList.update_triv)
qed

lemma addParts_intermediate_file:
  "suf \<noteq> [] \<Longrightarrow> lookup_path t (pre @ [part]) = Some (File q) \<Longrightarrow>
   addParts t seen (pre @ part # suf) fp isDir =
     (t, [Error (path_conflict_msg part (join_with ''/'' (seen @ pre @ [part])))])"
proof (induction pre arbitrary: t seen)
  case Nil
  then obtain s ss where "suf = s # ss" by (cases suf) auto
  with Nil show ?case by (simp split: option.splits node.splits)
next
  case (Cons a pre)
  obtain b bs where e: "pre @ [part] = b # bs" by (cases pre) auto
  from Cons.prems(2) e obtain p ch
    where f: "map_of t a = Some (Folder p ch)"
      and l: "lookup_path ch (pre @ [part]) = Some (File q)"
    by (auto split: option.splits node.splits)
  obtain c cs where g: "pre @ part # suf = c # cs" by (cases pre) auto
  have "addParts ch (seen @ [a]) (pre @ part # suf) fp isDir =
          (ch, [Error (path_conflict_msg part (join_with ''/'' ((seen @ [a]) @ pre @ [part])))])"
    using Cons.IH [OF Cons.prems(1) l] by simp
  then show ?case using f g by (simp add: AList.update_triv)
qed

lemma addParts_terminal_file:
  "lookup_path t ps = Some (File q) \<Longrightarrow>
   snd (addParts t seen ps fp False) = [] \<and>
   lookup_path (fst (addParts t seen ps fp False)) ps = Some (File fp)"
proof (induction t seen ps fp False arbitrary: q rule: addParts.induct)
  case (1 current seen filePath)
  then show ?case by simp
next
  case (2 current seen part filePath)
  then show ?case by (simp add: AList.update_conv')
next
  case (3 current seen part v va filePath)
  then show ?case
    by (auto split: option.splits node.splits prod.splits simp: AList.update_conv')
qed

lemma addParts_elsewhere:
  "lookup_path t ps = Some (File q) \<Longrightarrow> take (length qs) ps \<noteq> qs \<Longrightarrow>
   lookup_path (fst (addParts t seen ps fp False)) qs = lookup_path t qs"
proof (induction t seen ps fp False arbitrary: q qs rule: addParts.induct)
  case (1 current seen filePath)
  then show ?case by simp
next
  case (2 current seen part filePath)
  show ?case
  proof (cases qs)
    case Nil
    then show ?thesis by simp
  next
    case (Cons x xs)
    with 2 show ?thesis
      by (cases xs) (auto simp: AList.update_conv' split: option.splits node.splits)
  qed
next
  case (3 current seen part v va filePath)
  from 3(3) obtain p ch0 where f: "map_of current part = Some (Folder p ch0)"
    and l: "lookup_path ch0 (v # va) = Some (File q)"
    by (auto split: option.splits node.splits)
  show ?case
  proof (cases qs)
    case Nil
    with 3(4) show ?thesis by simp
  next
    case (Cons x xs)
    show ?thesis
    proof (cases xs)
      case Nil
      with Cons 3(4) have "x \<noteq> part" by simp
      with Cons Nil f show ?thesis
        by (simp add: AList.update_conv' split: prod.splits)
    next
      case (Cons y ys)
      show ?thesis
      proof (cases "x = part")
        case True
        with 3(4) \<open>qs = x # xs\<close> have "take (length xs) (v # va) \<noteq> xs" by simp
        from 3(2) [OF refl f refl l this]
        show ?thesis using True \<open>qs = x # xs\<close> Cons f
          by (auto simp: AList.update_conv' split: prod.splits)
      next
        case False
        then show ?thesis using \<open>qs = x # xs\<close> Cons f
          by (simp add: AList.update_conv' split: prod.splits)
      qed
    qed
  qed
qed

lemma addParts_idem:
  "addParts (fst (addParts t seen ps fp isDir)) seen ps fp isDir = addParts t seen ps fp isDir"
proof (induction t seen ps fp isDir rule: addParts.induct)
  case (1 current seen filePath isDir)
  then show ?case by simp
next
  case (2 current seen part filePath isDir)
  then show ?case
    by (auto split: option.splits node.splits simp: AList.update_conv')
next
  case (3 current seen part v va filePath isDir)
  then show ?case
    by (auto split: option.splits node.splits prod.splits simp: AList.update_conv' Let_def)
qed

lemma set_update_cases:
  "kn \<in> set (AList.update k v al) \<Longrightarrow> kn = (k, v) \<or> kn \<in> set al"
  by (induction al) (auto split: if_splits)

lemma unique_names_update:
  "unique_names t \<Longrightarrow> unique_names_node n \<Longrightarrow> unique_names (AList.update k n t)"
  unfolding unique_names_def
  by (auto simp: AList.distinct_update dest: set_update_cases)

lemma unique_names_Folder: "unique_names_node (Folder p ch) = unique_names ch"
  by (simp add: unique_names_def)

lemma unique_names_child:
  assumes "unique_names t" and "map_of t k = Some (Folder p ch)"
  shows "unique_names ch"
proof -
  from assms(2) have "(k, Folder p ch) \<in> set t" by (rule map_of_SomeD)
  with assms(1) have "unique_names_node (Folder p ch)" unfolding unique_names_def by fastforce
  then show ?thesis by (simp only: unique_names_Folder)
qed

lemma unique_names_empty: "unique_names []"
  by (simp add: unique_names_def)

lemma addParts_unique_names:
  "unique_names t \<Longrightarrow> unique_names (fst (addParts t seen ps fp isDir))"
proof (induction t seen ps fp isDir rule: addParts.induct)
  case (1 current seen filePath isDir)
  then show ?case by simp
next
  case (2 current seen part filePath isDir)
  then show ?case
    by (auto split: option.splits node.splits intro!: unique_names_update
        simp: unique_names_empty)
next
  case (3 current seen part v va filePath isDir)
  show ?case
  proof (cases "map_of current part")
    case None
    from 3(1) [OF refl None] unique_names_empty
    have "unique_names (fst (addParts [] (seen @ [part]) (v # va) filePath isDir))" by simp
    with None 3(3) show ?thesis
      by (auto split: prod.splits intro!: unique_names_update
          simp: unique_names_Folder simp del: unique_names_node.simps)
  next
    case (Some n)
    show ?thesis
    proof (cases n)
      case (File x1)
      with Some 3(3) show ?thesis by simp
    next
      case (Folder p ch0)
      have "unique_names ch0" using unique_names_child [OF 3(3)] Some Folder by simp
      with 3(2) [OF refl Some Folder]
      have "unique_names (fst (addParts ch0 (seen @ [part]) (v # va) filePath isDir))" by simp
      with Some Folder 3(3) show ?thesis
        by (auto split: prod.splits intro!: unique_names_update
            simp: unique_names_Folder simp del: unique_names_node.simps)
    qed
  qed
qed

lemma addAll_unique_names:
  "unique_names t \<Longrightarrow> unique_names (addAll t filePaths)"
  unfolding addAll_def
  by (induction filePaths arbitrary: t) (simp_all add: addToTree_def addParts_unique_names)

text \<open>
  Claim C4. The conflict policy of \<open>addToTree\<close>. (1) If the path of a file insertion names
  an existing folder, nothing is inserted: the tree that comes back is the tree that went
  in, and the only output is the conflict warning. (2) If a proper prefix of the path names
  an existing file, the walk stops there: the tree comes back unchanged and the only output
  is the path-conflict error that names the offending part and its path. Both are returns,
  not exceptions.
\<close>

theorem addToTree_conflict_policy:
  "(lookup_path tree (path_parts filePath) = Some (Folder p ch) \<longrightarrow>
      addToTree tree filePath False = (tree, [Warn (folder_conflict_msg filePath)]))
   \<and> (path_parts filePath = pre @ part # suf \<and> suf \<noteq> [] \<and>
      lookup_path tree (pre @ [part]) = Some (File q) \<longrightarrow>
      addToTree tree filePath isDir =
        (tree, [Error (path_conflict_msg part (join_with ''/'' (pre @ [part])))]))"
  using addParts_terminal_folder [of tree "path_parts filePath" p ch "[]" filePath]
    addParts_intermediate_file [of suf tree pre part q "[]" filePath isDir]
  by (auto simp: addToTree_def)

theorem addToTree_conflict_policy_witness:
  "lookup_path [(''src'', Folder ''src'' [(''lib'', Folder ''src/lib'' [])])] (path_parts ''src/lib'')
     = Some (Folder ''src/lib'' [])
   \<and> addToTree [(''src'', Folder ''src'' [(''lib'', Folder ''src/lib'' [])])] ''src/lib'' False
     = ([(''src'', Folder ''src'' [(''lib'', Folder ''src/lib'' [])])],
        [Warn (folder_conflict_msg ''src/lib'')])
   \<and> path_parts ''lib/util/x.js'' = [''lib''] @ ''util'' # [''x.js'']
   \<and> lookup_path [(''lib'', Folder ''lib'' [(''util'', File ''lib/util'')])] ([''lib''] @ [''util''])
     = Some (File ''lib/util'')
   \<and> addToTree [(''lib'', Folder ''lib'' [(''util'', File ''lib/util'')])] ''lib/util/x.js'' False
     = ([(''lib'', Folder ''lib'' [(''util'', File ''lib/util'')])],
        [Error (path_conflict_msg ''util'' ''lib/util'')])"
proof -
  have h1: "lookup_path [(''src'', Folder ''src'' [(''lib'', Folder ''src/lib'' [])])]
              (path_parts ''src/lib'') = Some (Folder ''src/lib'' [])"
    by (simp add: path_parts_def truthy_def)
  have h2: "path_parts ''lib/util/x.js'' = [''lib''] @ ''util'' # [''x.js'']"
    by (simp add: path_parts_def truthy_def)
  have h3: "lookup_path [(''lib'', Folder ''lib'' [(''util'', File ''lib/util'')])]
              ([''lib''] @ [''util'']) = Some (File ''lib/util'')"
    by simp
  show ?thesis
    using h1 h2 h3
      addToTree_conflict_policy [of "[(''src'', Folder ''src'' [(''lib'', Folder ''src/lib'' [])])]"
        "''src/lib''" "''src/lib''" "[]"]
      addToTree_conflict_policy [of "[(''lib'', Folder ''lib'' [(''util'', File ''lib/util'')])]"
        "''lib/util/x.js''" _ _ "[''lib'']" "''util''" "[''x.js'']" "''lib/util''" False]
    by simp
qed

text \<open>
  Claim C10. File against file: last insert wins. (1) If the path of a file insertion names
  an existing file node, that node is replaced by the new file node, nothing is logged,
  and every path that is not a prefix of the inserted one reads as before. (2) Inserting
  the same file path a second time changes nothing: the call returns what the first call
  returned. (3) Insertion never gives a parent two children of the same name, so none of
  the trees built from the empty tree has one.
\<close>

theorem addToTree_file_replaced:
  "(lookup_path tree (path_parts filePath) = Some (File q) \<longrightarrow>
      snd (addToTree tree filePath False) = []
      \<and> lookup_path (fst (addToTree tree filePath False)) (path_parts filePath)
          = Some (File filePath)
      \<and> (\<forall>qs. take (length qs) (path_parts filePath) \<noteq> qs \<longrightarrow>
            lookup_path (fst (addToTree tree filePath False)) qs = lookup_path tree qs))
   \<and> addToTree (fst (addToTree tree filePath False)) filePath False
       = addToTree tree filePath False
   \<and> (unique_names tree \<longrightarrow> unique_names (fst (addToTree tree filePath isDir)))
   \<and> unique_names (addAll [] filePaths)"
  using addParts_terminal_file [of tree "path_parts filePath" q "[]" filePath]
    addParts_elsewhere [of tree "path_parts filePath" q _ "[]" filePath]
    addParts_idem [of tree "[]" "path_parts filePath" filePath False]
    addParts_unique_names [of tree "[]" "path_parts filePath" filePath isDir]
    addAll_unique_names [OF unique_names_empty, of filePaths]
  by (auto simp: addToTree_def)

theorem addToTree_file_replaced_witness:
  "lookup_path [(''a'', Folder ''a'' [(''b.txt'', File ''a/b.txt'')])] (path_parts ''a//b.txt'')
     = Some (File ''a/b.txt'')
   \<and> addToTree [(''a'', Folder ''a'' [(''b.txt'', File ''a/b.txt'')])] ''a//b.txt'' False
     = ([(''a'', Folder ''a'' [(''b.txt'', File ''a//b.txt'')])], [])
   \<and> unique_names [(''a'', Folder ''a'' [(''b.txt'', File ''a/b.txt'')])]
   \<and> unique_names (fst (addToTree [(''a'', Folder ''a'' [(''b.txt'', File ''a/b.txt'')])]
        ''a//b.txt'' False))"
proof -
  have h1: "lookup_path [(''a'', Folder ''a'' [(''b.txt'', File ''a/b.txt'')])]
              (path_parts ''a//b.txt'') = Some (File ''a/b.txt'')"
    by (simp add: path_parts_def truthy_def)
  have h2: "unique_names [(''a'', Folder ''a'' [(''b.txt'', File ''a/b.txt'')])]"
    by (simp add: unique_names_def)
  have h3: "addToTree [(''a'', Folder ''a'' [(''b.txt'', File ''a/b.txt'')])] ''a//b.txt'' False
     = ([(''a'', Folder ''a'' [(''b.txt'', File ''a//b.txt'')])], [])"
    by (simp add: addToTree_def path_parts_def truthy_def)
  show ?thesis
    using h1 h2 h3
      addToTree_file_replaced [of "[(''a'', Folder ''a'' [(''b.txt'', File ''a/b.txt'')])]"
        "''a//b.txt''" "''a/b.txt''" False "[]"]
    by simp
qed

section \<open>Source list: removal and the selection\<close>

lemma renderDirectoriesList_empty:
  "directories st = [] \<Longrightarrow> renderDirectoriesList st = st\<lparr>selectedDirectoryId := None\<rparr>"
  by (simp add: renderDirectoriesList.simps)

lemma renderDirectoriesList_valid:
  "directories st \<noteq> [] \<Longrightarrow> validSelectionExists st \<Longrightarrow> renderDirectoriesList st = st"
  by (cases "directories st") (simp_all add: renderDirectoriesList.simps)

lemma renderDirectoriesList_invalid:
  assumes "directories st = first # others" and "\<not> validSelectionExists st"
  shows "renderDirectoriesList st = st\<lparr>selectedDirectoryId := Some (dir_id first)\<rparr>"
proof -
  let ?st' = "st\<lparr>selectedDirectoryId := Some (dir_id first)\<rparr>"
  have "validSelectionExists ?st'" using assms(1) by (simp add: validSelectionExists_def)
  moreover have "directories ?st' \<noteq> []" using assms(1) by simp
  ultimately have "renderDirectoriesList ?st' = ?st'" by (rule renderDirectoriesList_valid [rotated])
  then show ?thesis using assms by (subst renderDirectoriesList.simps) simp
qed

lemma renderDirectoriesList_directories:
  "directories (renderDirectoriesList st) = directories st"
proof (cases "directories st")
  case Nil
  then show ?thesis by (simp add: renderDirectoriesList_empty)
next
  case (Cons first others)
  then show ?thesis
    by (cases "validSelectionExists st")
       (simp_all add: renderDirectoriesList_valid renderDirectoriesList_invalid)
qed

lemma renderDirectoriesList_selection_ok:
  "selection_ok (renderDirectoriesList st)"
proof (cases "directories st")
  case Nil
  then show ?thesis by (simp add: renderDirectoriesList_empty selection_ok_def)
next
  case (Cons first others)
  show ?thesis
  proof (cases "validSelectionExists st")
    case True
    with Cons have "renderDirectoriesList st = st" by (simp add: renderDirectoriesList_valid)
    moreover from True have "selection_ok st"
      by (auto simp: validSelectionExists_def selection_ok_def list_ex_iff split: option.splits)
    ultimately show ?thesis by simp
  next
    case False
    with Cons show ?thesis
      by (simp add: renderDirectoriesList_invalid selection_ok_def)
  qed
qed

lemma renderDirectoriesList_selected:
  "directories st \<noteq> [] \<Longrightarrow> selectedDirectoryId (renderDirectoriesList st) \<noteq> None"
proof (cases "directories st")
  case Nil
  then show "directories st \<noteq> [] \<Longrightarrow> ?thesis" by simp
next
  case (Cons first others)
  show ?thesis
  proof (cases "validSelectionExists st")
    case True
    with Cons have "renderDirectoriesList st = st" by (simp add: renderDirectoriesList_valid)
    moreover from True obtain dir :: directory
      where "Some (dir_id dir) = selectedDirectoryId st"
      unfolding validSelectionExists_def list_ex_iff by blast
    ultimately show ?thesis by (metis option.distinct(1))
  next
    case False
    with Cons show ?thesis by (simp add: renderDirectoriesList_invalid)
  qed
qed

text \<open>
  Claim C8. Removing a source (the Remove button, confirmed) keeps the selection invariant:
  afterwards the list is the old list without the removed id and the selection is unset or
  names a source of the list, and it is set whenever a source remains. If the removed source
  was the selected one, the selection becomes the first remaining source, or nothing when
  no source remains. If another, registered source was selected, it stays selected. A
  removal that is not confirmed changes nothing.
\<close>

theorem removeBtn_click_selection:
  "directories (removeBtn_click True dirId st)
     = filter (\<lambda>d. dir_id d \<noteq> dirId) (directories st)
   \<and> selection_ok (removeBtn_click True dirId st)
   \<and> (directories (removeBtn_click True dirId st) \<noteq> [] \<longrightarrow>
        selectedDirectoryId (removeBtn_click True dirId st) \<noteq> None)
   \<and> removeBtn_click False dirId st = st
   \<and> (selectedDirectoryId st = Some dirId \<longrightarrow>
        selectedDirectoryId (removeBtn_click True dirId st)
          = (case filter (\<lambda>d. dir_id d \<noteq> dirId) (directories st) of
               [] \<Rightarrow> None | d # _ \<Rightarrow> Some (dir_id d)))
   \<and> (selectedDirectoryId st = Some s \<and> s \<noteq> dirId
        \<and> list_ex (\<lambda>d. dir_id d = s) (directories st) \<longrightarrow>
        selectedDirectoryId (removeBtn_click True dirId st) = Some s)"
proof -
  let ?rest = "filter (\<lambda>d. dir_id d \<noteq> dirId) (directories st)"
  have a: "directories (removeBtn_click True dirId st) = ?rest"
    by (simp add: removeBtn_click_def Let_def renderDirectoriesList_directories)
  have b: "selection_ok (removeBtn_click True dirId st)"
    by (simp add: removeBtn_click_def Let_def renderDirectoriesList_selection_ok)
  have c: "selectedDirectoryId (removeBtn_click True dirId st)
             = (case ?rest of [] \<Rightarrow> None | d # _ \<Rightarrow> Some (dir_id d))"
    if sel: "selectedDirectoryId st = Some dirId"
  proof (cases ?rest)
    case Nil
    with sel show ?thesis
      by (simp add: removeBtn_click_def Let_def renderDirectoriesList_empty)
  next
    case (Cons d ds)
    let ?st2 = "st\<lparr>directories := ?rest, selectedDirectoryId := Some (dir_id d)\<rparr>"
    have "validSelectionExists ?st2" using Cons by (simp add: validSelectionExists_def)
    then have "renderDirectoriesList ?st2 = ?st2"
      using Cons by (simp add: renderDirectoriesList_valid)
    with sel Cons show ?thesis
      by (simp add: removeBtn_click_def Let_def)
  qed
  have d: "selectedDirectoryId (removeBtn_click True dirId st) = Some s"
    if sel: "selectedDirectoryId st = Some s" and ne: "s \<noteq> dirId"
      and reg: "list_ex (\<lambda>d. dir_id d = s) (directories st)"
  proof -
    let ?st1 = "st\<lparr>directories := ?rest\<rparr>"
    from reg ne have v: "validSelectionExists ?st1"
      using sel by (auto simp: validSelectionExists_def list_ex_iff)
    then have "directories ?st1 \<noteq> []"
      by (auto simp: validSelectionExists_def list_ex_iff filter_empty_conv)
    with v have "renderDirectoriesList ?st1 = ?st1" by (simp add: renderDirectoriesList_valid)
    with sel ne show ?thesis by (simp add: removeBtn_click_def Let_def)
  qed
  have e: "selectedDirectoryId (removeBtn_click True dirId st) \<noteq> None"
    if "directories (removeBtn_click True dirId st) \<noteq> []"
  proof -
    let ?st1 = "st\<lparr>directories := ?rest\<rparr>"
    let ?st2 = "if selectedDirectoryId ?st1 = Some dirId
                then ?st1\<lparr>selectedDirectoryId :=
                       (case directories ?st1 of [] \<Rightarrow> None | d # _ \<Rightarrow> Some (dir_id d))\<rparr>
                else ?st1"
    have r: "removeBtn_click True dirId st = renderDirectoriesList ?st2"
      by (simp add: removeBtn_click_def Let_def)
    from that have "directories ?st2 \<noteq> []"
      unfolding r renderDirectoriesList_directories .
    then show ?thesis unfolding r by (rule renderDirectoriesList_selected)
  qed
  have f: "removeBtn_click False dirId st = st"
    by (simp add: removeBtn_click_def)
  from a b c d e f show ?thesis by blast
qed

theorem removeBtn_click_selection_witness:
  "selectedDirectoryId
     \<lparr>directories =
        [\<lparr>dir_id = 7, dir_type = ''path'', dir_path = Some ''/srv/a'', dir_name = None,
          dir_tree = None, dir_error = None\<rparr>,
         \<lparr>dir_id = 9, dir_type = ''uploaded'', dir_path = None, dir_name = Some ''zip'',
          dir_tree = Some [], dir_error = None\<rparr>],
      selectedDirectoryId = Some 7, baseEndpoint = ''/'', failedFiles = {},
      patchContent = ''''\<rparr> = Some 7
   \<and> selectedDirectoryId (removeBtn_click True 7
     \<lparr>directories =
        [\<lparr>dir_id = 7, dir_type = ''path'', dir_path = Some ''/srv/a'', dir_name = None,
          dir_tree = None, dir_error = None\<rparr>,
         \<lparr>dir_id = 9, dir_type = ''uploaded'', dir_path = None, dir_name = Some ''zip'',
          dir_tree = Some [], dir_error = None\<rparr>],
      selectedDirectoryId = Some 7, baseEndpoint = ''/'', failedFiles = {},
      patchContent = ''''\<rparr>) = Some 9
   \<and> selectedDirectoryId (removeBtn_click True 9
     \<lparr>directories =
        [\<lparr>dir_id = 7, dir_type = ''path'', dir_path = Some ''/srv/a'', dir_name = None,
          dir_tree = None, dir_error = None\<rparr>,
         \<lparr>dir_id = 9, dir_type = ''uploaded'', dir_path = None, dir_name = Some ''zip'',
          dir_tree = Some [], dir_error = None\<rparr>],
      selectedDirectoryId = Some 7, baseEndpoint = ''/'', failedFiles = {},
      patchContent = ''''\<rparr>) = Some 7"
  using removeBtn_click_selection [of 7
     "\<lparr>directories =
        [\<lparr>dir_id = 7, dir_type = ''path'', dir_path = Some ''/srv/a'', dir_name = None,
          dir_tree = None, dir_error = None\<rparr>,
         \<lparr>dir_id = 9, dir_type = ''uploaded'', dir_path = None, dir_name = Some ''zip'',
          dir_tree = Some [], dir_error = None\<rparr>],
      selectedDirectoryId = Some 7, baseEndpoint = ''/'', failedFiles = {},
      patchContent = ''''\<rparr>" 7]
    removeBtn_click_selection [of 9
     "\<lparr>directories =
        [\<lparr>dir_id = 7, dir_type = ''path'', dir_path = Some ''/srv/a'', dir_name = None,
          dir_tree = None, dir_error = None\<rparr>,
         \<lparr>dir_id = 9, dir_type = ''uploaded'', dir_path = None, dir_name = Some ''zip'',
          dir_tree = Some [], dir_error = None\<rparr>],
      selectedDirectoryId = Some 7, baseEndpoint = ''/'', failedFiles = {},
      patchContent = ''''\<rparr>" 7]
  by simp

section \<open>Content resolver\<close>

subsection \<open>The loops\<close>

text \<open>
  Every loop of the resolver writes, for the path at hand, an entry and possibly a failure
  that depend on that path only. Such a loop leaves a map that has exactly the looped paths
  added, each with its own entry.
\<close>

lemma fold_keyed:
  assumes "\<And>p r f. step p (r, f) =
             (r(p \<mapsto> the (fst (step p (Map.empty, {})) p)),
              if p \<in> snd (step p (Map.empty, {})) then insert p f else f)"
  shows "fold step ps (r, f) =
           ((\<lambda>x. if x \<in> set ps then fst (step x (Map.empty, {})) x else r x),
            f \<union> {p \<in> set ps. p \<in> snd (step p (Map.empty, {}))})"
proof (induction ps arbitrary: r f)
  case Nil
  then show ?case by simp
next
  case (Cons a ps)
  have own: "fst (step a (Map.empty, {})) a = Some (the (fst (step a (Map.empty, {})) a))"
    by (subst assms) simp
  show ?case
    apply (simp only: fold_simps)
    apply (subst assms)
    apply (subst Cons.IH)
    using own apply (auto simp: fun_eq_iff)
    done
qed

lemma set_all_error_eq:
  "set_all_error msg ps r =
     (\<lambda>x. if x \<in> set ps then Some \<lparr>content = None, error = Some msg\<rparr> else r x)"
  unfolding set_all_error_def
  by (induction ps arbitrary: r) (auto simp: fun_eq_iff)

lemma add_all_failed_eq: "add_all_failed ps f = set ps \<union> f"
  unfolding add_all_failed_def
  by (induction ps arbitrary: f) auto

lemma uploaded_fold:
  "fold (uploaded_step store d) ps (r, f) =
     ((\<lambda>x. if x \<in> set ps then fst (uploaded_step store d x (Map.empty, {})) x else r x),
      f \<union> {p \<in> set ps. p \<in> snd (uploaded_step store d p (Map.empty, {}))})"
  by (rule fold_keyed) (auto simp: uploaded_step_def split: sum.splits option.splits)

lemma server_fold:
  "fold (server_step files) (zip (map g ps) ps) (r, f) =
     ((\<lambda>x. if x \<in> set ps then fst (server_step files (g x, x) (Map.empty, {})) x else r x),
      f \<union> {p \<in> set ps. p \<in> snd (server_step files (g p, p) (Map.empty, {}))})"
proof -
  have "zip (map g ps) ps = map (\<lambda>p. (g p, p)) ps"
    by (induction ps) simp_all
  then have "fold (server_step files) (zip (map g ps) ps) (r, f)
               = fold (\<lambda>p. server_step files (g p, p)) ps (r, f)"
    by (simp add: fold_map comp_def)
  also have "\<dots> =
     ((\<lambda>x. if x \<in> set ps then fst (server_step files (g x, x) (Map.empty, {})) x else r x),
      f \<union> {p \<in> set ps. p \<in> snd (server_step files (g p, p) (Map.empty, {}))})"
    by (rule fold_keyed) (auto simp: server_step_def split: option.splits)
  finally show ?thesis .
qed

lemma missing_fold_noop:
  "\<forall>p \<in> set ps. r p \<noteq> None \<Longrightarrow> fold missing_step ps (r, f) = (r, f)"
  by (induction ps) (auto simp: missing_step_def)

lemma server_step_own_key:
  "\<exists>e. fst (server_step files (a, x) (Map.empty, {})) x = Some e"
  by (simp add: server_step_def split: option.splits)

text \<open>A successful batch response: the second loop finds every path already entered.\<close>

lemma batch_success:
  assumes "resp_ok response" and "resp_json response = Inr data"
    and "fd_success data" and "fd_files data = Some files"
  shows "batch_response (Inr response) (map g ps) ps (Map.empty, {}) =
     ((\<lambda>x. if x \<in> set ps then fst (server_step files (g x, x) (Map.empty, {})) x else None),
      {p \<in> set ps. p \<in> snd (server_step files (g p, p) (Map.empty, {}))})"
proof -
  let ?r = "\<lambda>x. if x \<in> set ps then fst (server_step files (g x, x) (Map.empty, {})) x
                else None"
  let ?f = "{p \<in> set ps. p \<in> snd (server_step files (g p, p) (Map.empty, {}))}"
  have first: "fold (server_step files) (zip (map g ps) ps) (Map.empty, {}) = (?r, ?f)"
    by (simp add: server_fold)
  have "\<forall>p \<in> set ps. ?r p \<noteq> None"
    using server_step_own_key [of files] by auto
  then have "fold missing_step ps (?r, ?f) = (?r, ?f)"
    by (rule missing_fold_noop)
  with assms first show ?thesis
    by (simp add: batch_response_def)
qed

lemma batch_response_dom:
  "dom (fst (batch_response outcome (map g ps) ps (Map.empty, {}))) = set ps"
proof -
  have err: "dom (fst (network_error m ps (Map.empty, {}))) = set ps" for m
    by (auto simp: network_error_def set_all_error_eq dom_def)
  show ?thesis
  proof (cases outcome)
    case (Inl message)
    then show ?thesis by (simp add: batch_response_def err)
  next
    case (Inr response)
    show ?thesis
    proof (cases "resp_ok response")
      case False
      with Inr show ?thesis by (simp add: batch_response_def err Let_def)
    next
      case True
      show ?thesis
      proof (cases "resp_json response")
        case (Inl message)
        with Inr True show ?thesis by (simp add: batch_response_def err)
      next
        case data: (Inr data)
        show ?thesis
        proof (cases "fd_success data \<and> fd_files data \<noteq> None")
          case True
          then obtain files where "fd_success data" and "fd_files data = Some files" by auto
          from batch_success [OF \<open>resp_ok response\<close> data this, of g ps] Inr show ?thesis
            using server_step_own_key [of files] by (auto simp: dom_def)
        next
          case False
          with Inr \<open>resp_ok response\<close> data show ?thesis
            by (cases "fd_success data"; cases "fd_files data")
               (auto simp: batch_response_def set_all_error_eq dom_def Let_def)
        qed
      qed
    qed
  qed
qed

lemma find_dir_cleared [simp]: "find_dir (st\<lparr>failedFiles := F\<rparr>) dirId = find_dir st dirId"
  by (simp add: find_dir_def)

lemma find_dir_id: "find_dir st dirId = Some dir \<Longrightarrow> dir_id dir = dirId"
  by (auto simp: find_dir_def find_Some_iff)

lemma sample_join_a: "PathUtils_join ''/root'' [''a.txt''] = ''/root/a.txt''"
  by (simp add: PathUtils_join_def truthy_def startsWith_def)

lemma sample_join_b: "PathUtils_join ''/root'' [''b.txt''] = ''/root/b.txt''"
  by (simp add: PathUtils_join_def truthy_def startsWith_def)

lemma sample_find_7:
  "find_dir sample_state 7 =
     Some \<lparr>dir_id = 7, dir_type = ''path'', dir_path = Some ''/root'', dir_name = Some ''root'',
           dir_tree = None, dir_error = None\<rparr>"
  by (simp add: find_dir_def sample_state_def)

lemma sample_find_9:
  "find_dir sample_state 9 =
     Some \<lparr>dir_id = 9, dir_type = ''uploaded'', dir_path = None, dir_name = Some ''upload'',
           dir_tree = Some [], dir_error = None\<rparr>"
  by (simp add: find_dir_def sample_state_def)

lemma sample_find_8: "find_dir sample_state 8 = None"
  by (simp add: find_dir_def sample_state_def)

lemma sample_batch_fetch:
  "fst (tryFetchWithFallback (batch_ok files) url body) =
     Inr \<lparr>resp_ok = True, resp_status = 200, resp_text = None,
          resp_json = Inr \<lparr>fd_success = True, fd_files = Some files, fd_error = None\<rparr>\<rparr>"
  by (simp add: tryFetchWithFallback_def batch_ok_def Let_def)

subsection \<open>Unknown source\<close>

text \<open>
  Claim C9. When no registered source has the requested id, the call returns a map in which
  every requested path carries the error \<^verbatim>\<open>Target directory not found\<close>, and the failure set
  is empty afterwards, whatever it held before: it is cleared first and this branch never
  adds to it.
\<close>

theorem unknown_source_marks_all_fails_none:
  assumes "find_dir st dirId = None"
  shows "(\<forall>p \<in> set filePaths.
            entry_of (fst (fetchPatchRequiredFiles store fetch st dirId filePaths)) p
              = Some \<lparr>content = None, error = Some ''Target directory not found''\<rparr>)
         \<and> failedFiles (snd (fetchPatchRequiredFiles store fetch st dirId filePaths)) = {}"
  using assms
  by (simp add: fetchPatchRequiredFiles_def Let_def entry_of_def set_all_error_eq)

theorem unknown_source_marks_all_fails_none_witness:
  "find_dir sample_state 8 = None
   \<and> failedFiles sample_state = {''stale.txt''}
   \<and> entry_of (fst (fetchPatchRequiredFiles sample_store (batch_ok files_b_only) sample_state 8
        [''a.txt'', ''b.txt''])) ''a.txt''
       = Some \<lparr>content = None, error = Some ''Target directory not found''\<rparr>
   \<and> entry_of (fst (fetchPatchRequiredFiles sample_store (batch_ok files_b_only) sample_state 8
        [''a.txt'', ''b.txt''])) ''b.txt''
       = Some \<lparr>content = None, error = Some ''Target directory not found''\<rparr>
   \<and> failedFiles (snd (fetchPatchRequiredFiles sample_store (batch_ok files_b_only) sample_state 8
        [''a.txt'', ''b.txt''])) = {}"
proof -
  have h: "find_dir sample_state 8 = None" by (rule sample_find_8)
  have s: "failedFiles sample_state = {''stale.txt''}" by (simp add: sample_state_def)
  show ?thesis
    using h s unknown_source_marks_all_fails_none [OF h, where filePaths = "[''a.txt'', ''b.txt'']"
        and store = sample_store and fetch = "batch_ok files_b_only"]
    by simp
qed

subsection \<open>Uploaded source\<close>

text \<open>
  Claim C5. For a source of type \<^verbatim>\<open>uploaded\<close>: a requested path with no record in the store
  gets an entry without content whose reason says the file was not found, and is not in the
  failure set; a requested path whose lookup throws gets an entry without content whose
  reason is the database error, and is in the failure set.
\<close>

theorem uploaded_missing_vs_exception:
  assumes "find_dir st dirId = Some dir" and "dir_type dir = ''uploaded''"
    and "p \<in> set filePaths"
  shows "(getUploadedFile store dirId p = Inr None \<longrightarrow>
            entry_of (fst (fetchPatchRequiredFiles store fetch st dirId filePaths)) p
              = Some \<lparr>content = None,
                      error = Some ''File not found in uploaded data (may be deleted by patch)''\<rparr>
            \<and> js_includes ''File not found in uploaded data (may be deleted by patch)'' ''not found''
            \<and> p \<notin> failedFiles (snd (fetchPatchRequiredFiles store fetch st dirId filePaths)))
         \<and> (getUploadedFile store dirId p = Inl message \<longrightarrow>
            entry_of (fst (fetchPatchRequiredFiles store fetch st dirId filePaths)) p
              = Some \<lparr>content = None, error = Some (''DB error: '' @ message)\<rparr>
            \<and> p \<in> failedFiles (snd (fetchPatchRequiredFiles store fetch st dirId filePaths)))"
proof -
  have id: "dir_id dir = dirId" using assms(1) by (rule find_dir_id)
  have inc: "js_includes ''File not found in uploaded data (may be deleted by patch)'' ''not found''"
    by (simp add: startsWith_def)
  have run: "fetchPatchRequiredFiles store fetch st dirId filePaths =
      (Inr (fst (fold (uploaded_step store dirId) filePaths (Map.empty, {}))),
       st\<lparr>failedFiles := snd (fold (uploaded_step store dirId) filePaths (Map.empty, {}))\<rparr>)"
    using assms(1,2) id by (simp add: fetchPatchRequiredFiles_def Let_def)
  show ?thesis
    using assms(3) inc
    by (simp add: run entry_of_def uploaded_fold uploaded_step_def)
qed

theorem uploaded_missing_vs_exception_witness:
  "getUploadedFile sample_store 9 ''a.txt'' = Inr None
   \<and> getUploadedFile sample_store 9 ''b.txt'' = Inl ''Transaction aborted: quota''
   \<and> entry_of (fst (fetchPatchRequiredFiles sample_store (batch_ok files_b_only) sample_state 9
        [''a.txt'', ''b.txt''])) ''a.txt''
       = Some \<lparr>content = None,
               error = Some ''File not found in uploaded data (may be deleted by patch)''\<rparr>
   \<and> ''a.txt'' \<notin> failedFiles (snd (fetchPatchRequiredFiles sample_store (batch_ok files_b_only)
        sample_state 9 [''a.txt'', ''b.txt'']))
   \<and> entry_of (fst (fetchPatchRequiredFiles sample_store (batch_ok files_b_only) sample_state 9
        [''a.txt'', ''b.txt''])) ''b.txt''
       = Some \<lparr>content = None, error = Some ''DB error: Transaction aborted: quota''\<rparr>
   \<and> ''b.txt'' \<in> failedFiles (snd (fetchPatchRequiredFiles sample_store (batch_ok files_b_only)
        sample_state 9 [''a.txt'', ''b.txt'']))"
proof -
  have nine: "decimal 9 = ''9''" by code_simp
  have a: "getUploadedFile sample_store 9 ''a.txt'' = Inr None"
    by (simp add: getUploadedFile_def sample_store_def nine)
  have b: "getUploadedFile sample_store 9 ''b.txt'' = Inl ''Transaction aborted: quota''"
    by (simp add: getUploadedFile_def sample_store_def nine)
  show ?thesis
    using a b
      uploaded_missing_vs_exception [OF sample_find_9, where p = "''a.txt''"
        and filePaths = "[''a.txt'', ''b.txt'']" and store = sample_store
        and fetch = "batch_ok files_b_only"]
      uploaded_missing_vs_exception [OF sample_find_9, where p = "''b.txt''"
        and filePaths = "[''a.txt'', ''b.txt'']" and store = sample_store
        and message = "''Transaction aborted: quota''" and fetch = "batch_ok files_b_only"]
    by simp
qed

subsection \<open>Server source\<close>

text \<open>What the call returns for a server directory whose batch request is answered with
  \<^verbatim>\<open>{ success: true, files }\<close>.\<close>

lemma remote_success_run:
  assumes "find_dir st dirId = Some dir" and "dir_type dir = ''path''"
    and "dir_path dir = Some root"
    and "fst (tryFetchWithFallback fetch (baseEndpoint st @ ''/api/files'')
               (map (\<lambda>p. PathUtils_join root [p]) filePaths)) = Inr response"
    and "resp_ok response" and "resp_json response = Inr data"
    and "fd_success data" and "fd_files data = Some files"
  shows "fetchPatchRequiredFiles store fetch st dirId filePaths =
     (Inr (\<lambda>x. if x \<in> set filePaths
                then fst (server_step files (PathUtils_join root [x], x) (Map.empty, {})) x
                else None),
      st\<lparr>failedFiles :=
           {p \<in> set filePaths.
              p \<in> snd (server_step files (PathUtils_join root [p], p) (Map.empty, {}))}\<rparr>)"
proof (cases "filePaths = []")
  case True
  with assms(1-3) show ?thesis
    by (simp add: fetchPatchRequiredFiles_def Let_def)
next
  case False
  with assms(1-4) batch_success [OF assms(5-8)] show ?thesis
    by (simp add: fetchPatchRequiredFiles_def Let_def)
qed

text \<open>
  The first loop over a successful batch response writes an entry for every requested
  path, also for a path whose absolute path is absent from the \<^verbatim>\<open>files\<close> map: that path gets
  no content and the reason \<^verbatim>\<open>File not found by server (may be deleted by patch)\<close>, and is
  not added to the failure set.
\<close>

lemma absent_result_first_loop:
  assumes "find_dir st dirId = Some dir" and "dir_type dir = ''path''"
    and "dir_path dir = Some root"
    and "fst (tryFetchWithFallback fetch (baseEndpoint st @ ''/api/files'')
               (map (\<lambda>p. PathUtils_join root [p]) filePaths)) = Inr response"
    and "resp_ok response" and "resp_json response = Inr data"
    and "fd_success data" and "fd_files data = Some files"
    and "p \<in> set filePaths" and "files (PathUtils_join root [p]) = None"
  shows "entry_of (fst (fetchPatchRequiredFiles store fetch st dirId filePaths)) p
           = Some \<lparr>content = None,
                   error = Some ''File not found by server (may be deleted by patch)''\<rparr>
         \<and> p \<notin> failedFiles (snd (fetchPatchRequiredFiles store fetch st dirId filePaths))"
  using assms(9,10)
  by (simp add: remote_success_run [OF assms(1-8)] entry_of_def server_step_def)

text \<open>
  The second loop, the one written for paths that were requested and not returned
  (\<^verbatim>\<open>No response from server for this file.\<close>, with \<^verbatim>\<open>state.failedFiles.add\<close>), runs on
  what the first loop leaves and changes nothing: \<^verbatim>\<open>results.has(relPath)\<close> holds for every
  requested path by then.
\<close>

lemma second_loop_never_fires:
  "fold missing_step ps (fold (server_step files) (zip (map g ps) ps) (Map.empty, {}))
     = fold (server_step files) (zip (map g ps) ps) (Map.empty, {})"
proof -
  let ?r = "\<lambda>x. if x \<in> set ps then fst (server_step files (g x, x) (Map.empty, {})) x
                else None"
  let ?f = "{p \<in> set ps. p \<in> snd (server_step files (g p, p) (Map.empty, {}))}"
  have first: "fold (server_step files) (zip (map g ps) ps) (Map.empty, {}) = (?r, ?f)"
    by (simp add: server_fold)
  have "\<forall>p \<in> set ps. ?r p \<noteq> None"
    using server_step_own_key [of files] by auto
  then have "fold missing_step ps (?r, ?f) = (?r, ?f)"
    by (rule missing_fold_noop)
  with first show ?thesis by simp
qed

text \<open>
  Claim C1 says that, for a server source whose batch request is answered successfully,
  a requested path that is absent from the \<^verbatim>\<open>files\<close> map of the response gets the error
  \<^verbatim>\<open>No response from server for this file.\<close> and is added to the failure set. The code at
  such an input: \<^verbatim>\<open>a.txt\<close> and \<^verbatim>\<open>b.txt\<close> are requested from the server directory rooted at
  \<^verbatim>\<open>/root\<close>, the response is successful and its \<^verbatim>\<open>files\<close> map holds \<^verbatim>\<open>/root/b.txt\<close> only. The
  entry of \<^verbatim>\<open>a.txt\<close> carries the reason \<^verbatim>\<open>File not found by server (may be deleted by patch)\<close>
  and \<^verbatim>\<open>a.txt\<close> is not in the failure set, which is empty after the call.
\<close>

theorem absent_from_response_no_failure:
  "files_b_only (PathUtils_join ''/root'' [''a.txt'']) = None
   \<and> entry_of (fst (fetchPatchRequiredFiles sample_store (batch_ok files_b_only) sample_state 7
        [''a.txt'', ''b.txt''])) ''a.txt''
       = Some \<lparr>content = None,
               error = Some ''File not found by server (may be deleted by patch)''\<rparr>
   \<and> ''a.txt'' \<notin> failedFiles (snd (fetchPatchRequiredFiles sample_store (batch_ok files_b_only)
        sample_state 7 [''a.txt'', ''b.txt'']))
   \<and> failedFiles (snd (fetchPatchRequiredFiles sample_store (batch_ok files_b_only)
        sample_state 7 [''a.txt'', ''b.txt''])) = {}"
proof -
  have absent: "files_b_only (PathUtils_join ''/root'' [''a.txt'']) = None"
    by (simp add: sample_join_a files_b_only_def)
  have present: "files_b_only (PathUtils_join ''/root'' [''b.txt''])
                   = Some \<lparr>fr_success = True, fr_content = Some ''bee'', fr_error = None\<rparr>"
    by (simp add: sample_join_b files_b_only_def)
  have run: "fetchPatchRequiredFiles sample_store (batch_ok files_b_only) sample_state 7
               [''a.txt'', ''b.txt''] =
     (Inr (\<lambda>x. if x \<in> set [''a.txt'', ''b.txt'']
                then fst (server_step files_b_only (PathUtils_join ''/root'' [x], x)
                            (Map.empty, {})) x
                else None),
      sample_state\<lparr>failedFiles :=
           {p \<in> set [''a.txt'', ''b.txt''].
              p \<in> snd (server_step files_b_only (PathUtils_join ''/root'' [p], p)
                         (Map.empty, {}))}\<rparr>)"
    by (rule remote_success_run [OF sample_find_7 _ _ sample_batch_fetch,
          where root = "''/root''" and files = files_b_only
            and data = "\<lparr>fd_success = True, fd_files = Some files_b_only, fd_error = None\<rparr>"])
       simp_all
  have none_failed:
    "{p \<in> set [''a.txt'', ''b.txt''].
        p \<in> snd (server_step files_b_only (PathUtils_join ''/root'' [p], p) (Map.empty, {}))}
     = {}"
    using absent present by (auto simp: server_step_def)
  show ?thesis
    using absent none_failed by (simp add: run entry_of_def server_step_def)
qed

subsection \<open>Completeness of the result map\<close>

lemma uploaded_entry_ok:
  "\<exists>e. fst (uploaded_step store d x (Map.empty, {})) x = Some e
        \<and> (content e \<noteq> None \<or> error e \<noteq> None)"
  by (simp add: uploaded_step_def split: sum.splits option.splits)

lemma batch_response_entries:
  assumes wf: "\<And>response data files a res.
      outcome = Inr response \<Longrightarrow> resp_json response = Inr data \<Longrightarrow> fd_files data = Some files
      \<Longrightarrow> files a = Some res
      \<Longrightarrow> (if fr_success res then fr_content res \<noteq> None else fr_error res \<noteq> None)"
    and p: "p \<in> set ps"
  shows "\<exists>e. fst (batch_response outcome (map g ps) ps (Map.empty, {})) p = Some e
             \<and> (content e \<noteq> None \<or> error e \<noteq> None)"
proof -
  have err: "\<exists>e. fst (network_error m ps (Map.empty, {})) p = Some e
                  \<and> (content e \<noteq> None \<or> error e \<noteq> None)" for m
    using p by (simp add: network_error_def set_all_error_eq)
  show ?thesis
  proof (cases outcome)
    case (Inl message)
    then show ?thesis using err [of message] by (simp add: batch_response_def)
  next
    case (Inr response)
    show ?thesis
    proof (cases "resp_ok response")
      case False
      with Inr show ?thesis
        using err [of "''Server error: '' @ decimal (resp_status response) @ '' - ''
                 @ take 100 (case resp_text response of Some t \<Rightarrow> t
                             | None \<Rightarrow> ''HTTP '' @ decimal (resp_status response))"]
        by (simp add: batch_response_def Let_def)
    next
      case True
      show ?thesis
      proof (cases "resp_json response")
        case (Inl message)
        with Inr True show ?thesis using err [of message] by (simp add: batch_response_def)
      next
        case data: (Inr data)
        show ?thesis
        proof (cases "fd_success data \<and> fd_files data \<noteq> None")
          case True
          then obtain files where s: "fd_success data" and f: "fd_files data = Some files"
            by auto
          have "\<exists>e. fst (server_step files (g p, p) (Map.empty, {})) p = Some e
                     \<and> (content e \<noteq> None \<or> error e \<noteq> None)"
          proof (cases "files (g p)")
            case None
            then show ?thesis by (simp add: server_step_def)
          next
            case (Some res)
            from wf [OF Inr data f Some] Some show ?thesis
              by (auto simp: server_step_def split: if_splits)
          qed
          with batch_success [OF \<open>resp_ok response\<close> data s f, of g ps] Inr p
          show ?thesis by simp
        next
          case False
          with Inr \<open>resp_ok response\<close> data p show ?thesis
            by (cases "fd_success data"; cases "fd_files data")
               (auto simp: batch_response_def set_all_error_eq Let_def)
        qed
      qed
    qed
  qed
qed

text \<open>
  A server directory that has no path: joining the first file path with it throws, and the
  call returns no map at all. \<^verbatim>\<open>applyPatch\<close> and \<^verbatim>\<open>fetchDirectoryStructure\<close> test
  \<^verbatim>\<open>!dir.path\<close> before they use the path; this function does not.
\<close>

lemma no_root_path_throws:
  assumes "find_dir st dirId = Some dir" and "dir_type dir = ''path''"
    and "dir_path dir = None" and "filePaths \<noteq> []"
  shows "fst (fetchPatchRequiredFiles store fetch st dirId filePaths) = Inl TypeError"
  using assms by (simp add: fetchPatchRequiredFiles_def Let_def)

text \<open>
  Everywhere else the map is complete: for an unknown id, for an upload, for a source of
  any other type and for a server directory that has a path, whatever the service answers,
  the call returns a map whose keys are exactly the requested paths.
\<close>

lemma result_map_keys:
  assumes root: "\<forall>dir. find_dir st dirId = Some dir \<and> dir_type dir = ''path''
                   \<longrightarrow> dir_path dir \<noteq> None"
  shows "\<exists>results.
           fst (fetchPatchRequiredFiles store fetch st dirId filePaths) = Inr results
           \<and> dom results = set filePaths"
proof (cases "find_dir st dirId")
  case None
  then show ?thesis
    by (auto simp: fetchPatchRequiredFiles_def Let_def set_all_error_eq dom_def)
next
  case (Some dir)
  show ?thesis
  proof (cases "dir_type dir = ''uploaded''")
    case True
    with Some show ?thesis
      using uploaded_entry_ok [of store "dir_id dir"]
      by (auto simp: fetchPatchRequiredFiles_def Let_def uploaded_fold dom_def)
  next
    case notup: False
    show ?thesis
    proof (cases "dir_type dir = ''path''")
      case False
      with Some notup show ?thesis
        by (auto simp: fetchPatchRequiredFiles_def Let_def set_all_error_eq dom_def)
    next
      case True
      with root Some obtain r where r: "dir_path dir = Some r" by auto
      show ?thesis
      proof (cases "filePaths = []")
        case True
        with Some notup \<open>dir_type dir = ''path''\<close> r show ?thesis
          by (simp add: fetchPatchRequiredFiles_def Let_def)
      next
        case False
        let ?g = "\<lambda>p. PathUtils_join r [p]"
        let ?out = "fst (tryFetchWithFallback fetch (baseEndpoint st @ ''/api/files'')
                      (map ?g filePaths))"
        let ?res = "fst (batch_response ?out (map ?g filePaths) filePaths (Map.empty, {}))"
        have run: "fst (fetchPatchRequiredFiles store fetch st dirId filePaths) = Inr ?res"
          using Some notup \<open>dir_type dir = ''path''\<close> r False
          by (simp add: fetchPatchRequiredFiles_def Let_def)
        have d: "dom ?res = set filePaths" by (rule batch_response_dom)
        from run d show ?thesis by blast
      qed
    qed
  qed
qed

text \<open>
  Claim C3 says that for every source id, of a registered source or not and of whatever
  type, and for every list of requested paths the call returns a map with one entry for each
  requested path, never fewer. The code at a selected server directory that has no path
  (id 11, type \<^verbatim>\<open>path\<close>), asked for \<^verbatim>\<open>a.txt\<close>: \<^verbatim>\<open>PathUtils.join(dir.path, p)\<close> throws a
  TypeError outside the \<^verbatim>\<open>try\<close> block, the promise rejects, and there is no map and no
  entry for \<^verbatim>\<open>a.txt\<close>.
\<close>

theorem pathless_server_source_returns_no_map:
  "find_dir sample_state_pathless 11 =
     Some \<lparr>dir_id = 11, dir_type = ''path'', dir_path = None, dir_name = None,
           dir_tree = None, dir_error = None\<rparr>
   \<and> fst (fetchPatchRequiredFiles sample_store (batch_ok files_b_only) sample_state_pathless 11
        [''a.txt'']) = Inl TypeError
   \<and> entry_of (fst (fetchPatchRequiredFiles sample_store (batch_ok files_b_only)
        sample_state_pathless 11 [''a.txt''])) ''a.txt'' = None"
proof -
  have found: "find_dir sample_state_pathless 11 =
     Some \<lparr>dir_id = 11, dir_type = ''path'', dir_path = None, dir_name = None,
           dir_tree = None, dir_error = None\<rparr>"
    by (simp add: find_dir_def sample_state_pathless_def sample_state_def)
  have thrown: "fst (fetchPatchRequiredFiles sample_store (batch_ok files_b_only)
                  sample_state_pathless 11 [''a.txt'']) = Inl TypeError"
    by (rule no_root_path_throws [OF found]) simp_all
  from found thrown show ?thesis by (simp add: entry_of_def)
qed

text \<open>
  The entries. The documentation of the function promises values that are objects
  containing content or error. Every branch writes such an entry, except that a per-file
  result of the service is copied as it is: the entries hold content or an error reason as
  long as the per-file results of the response received carry content when they report
  success and an error when they do not.
\<close>

lemma result_entries_hold_something:
  assumes root: "\<forall>dir. find_dir st dirId = Some dir \<and> dir_type dir = ''path''
                   \<longrightarrow> dir_path dir \<noteq> None"
    and wf: "\<forall>dir root response data files a res.
        find_dir st dirId = Some dir \<and> dir_type dir = ''path'' \<and> dir_path dir = Some root
        \<and> fst (tryFetchWithFallback fetch (baseEndpoint st @ ''/api/files'')
                 (map (\<lambda>p. PathUtils_join root [p]) filePaths)) = Inr response
        \<and> resp_json response = Inr data \<and> fd_files data = Some files \<and> files a = Some res
        \<longrightarrow> (if fr_success res then fr_content res \<noteq> None else fr_error res \<noteq> None)"
    and p: "p \<in> set filePaths"
  shows "\<exists>e. entry_of (fst (fetchPatchRequiredFiles store fetch st dirId filePaths)) p = Some e
             \<and> (content e \<noteq> None \<or> error e \<noteq> None)"
proof (cases "find_dir st dirId")
  case None
  with p show ?thesis
    by (simp add: fetchPatchRequiredFiles_def Let_def set_all_error_eq entry_of_def)
next
  case (Some dir)
  show ?thesis
  proof (cases "dir_type dir = ''uploaded''")
    case True
    with Some p show ?thesis
      using uploaded_entry_ok [of store "dir_id dir" p]
      by (simp add: fetchPatchRequiredFiles_def Let_def uploaded_fold entry_of_def)
  next
    case notup: False
    show ?thesis
    proof (cases "dir_type dir = ''path''")
      case False
      with Some notup p show ?thesis
        by (simp add: fetchPatchRequiredFiles_def Let_def set_all_error_eq entry_of_def)
    next
      case True
      with root Some obtain r where r: "dir_path dir = Some r" by auto
      from p have ne: "filePaths \<noteq> []" by auto
      let ?g = "\<lambda>p. PathUtils_join r [p]"
      let ?out = "fst (tryFetchWithFallback fetch (baseEndpoint st @ ''/api/files'')
                    (map ?g filePaths))"
      let ?res = "fst (batch_response ?out (map ?g filePaths) filePaths (Map.empty, {}))"
      have run: "fst (fetchPatchRequiredFiles store fetch st dirId filePaths) = Inr ?res"
        using Some notup True r ne
        by (simp add: fetchPatchRequiredFiles_def Let_def)
      have "\<exists>e. ?res p = Some e \<and> (content e \<noteq> None \<or> error e \<noteq> None)"
      proof (rule batch_response_entries [OF _ p])
        fix response data files a res
        assume "?out = Inr response" and "resp_json response = Inr data"
          and "fd_files data = Some files" and "files a = Some res"
        with wf Some True r
        show "if fr_success res then fr_content res \<noteq> None else fr_error res \<noteq> None"
          by blast
      qed
      then show ?thesis by (simp add: run entry_of_def)
    qed
  qed
qed

text \<open>
  A per-file result that reports success and carries no content: the entry holds neither
  content nor an error.
\<close>

lemma bare_success_entry_holds_nothing:
  "entry_of (fst (fetchPatchRequiredFiles sample_store (batch_ok files_a_bare) sample_state 7
      [''a.txt''])) ''a.txt''
     = Some \<lparr>content = None, error = None\<rparr>"
proof -
  have run: "fetchPatchRequiredFiles sample_store (batch_ok files_a_bare) sample_state 7
               [''a.txt''] =
     (Inr (\<lambda>x. if x \<in> set [''a.txt'']
                then fst (server_step files_a_bare (PathUtils_join ''/root'' [x], x)
                            (Map.empty, {})) x
                else None),
      sample_state\<lparr>failedFiles :=
           {p \<in> set [''a.txt''].
              p \<in> snd (server_step files_a_bare (PathUtils_join ''/root'' [p], p)
                         (Map.empty, {}))}\<rparr>)"
    by (rule remote_success_run [OF sample_find_7 _ _ sample_batch_fetch,
          where root = "''/root''" and files = files_a_bare
            and data = "\<lparr>fd_success = True, fd_files = Some files_a_bare, fd_error = None\<rparr>"])
       simp_all
  show ?thesis
    by (subst run) (simp add: entry_of_def server_step_def sample_join_a files_a_bare_def)
qed

section \<open>Patch analysis, preview and apply\<close>

subsection \<open>Required paths\<close>

lemma set_add_set: "set (set_add x xs) = insert x (set xs)"
  by (auto simp: set_add_def)

lemma set_add_distinct: "distinct xs \<Longrightarrow> distinct (set_add x xs)"
  by (simp add: set_add_def)

lemma required_fold_set:
  "set (foldl (\<lambda>required patch.
              if truthy_opt (oldFileName patch) \<and> oldFileName patch \<noteq> Some ''/dev/null''
              then set_add (strip_prefix ''a/'' (the (oldFileName patch))) required
              else required) acc ps)
   = set acc \<union> {strip_prefix ''a/'' name | name.
        \<exists>p \<in> set ps. oldFileName p = Some name \<and> name \<noteq> [] \<and> name \<noteq> ''/dev/null''}"
proof (induction ps arbitrary: acc)
  case Nil
  then show ?case by simp
next
  case (Cons p ps)
  show ?case
    by (simp only: foldl_Cons Cons.IH)
       (auto simp: set_add_set truthy_opt_def truthy_def split: option.splits)
qed

lemma required_fold_distinct:
  "distinct acc \<Longrightarrow>
   distinct (foldl (\<lambda>required patch.
              if truthy_opt (oldFileName patch) \<and> oldFileName patch \<noteq> Some ''/dev/null''
              then set_add (strip_prefix ''a/'' (the (oldFileName patch))) required
              else required) acc ps)"
  by (induction ps arbitrary: acc) (simp_all add: set_add_distinct)

text \<open>
  Claim C6. The required paths of a sequence of parsed patches are, without repetition,
  the old file names that are present and are not \<^verbatim>\<open>/dev/null\<close>, each without its leading
  \<^verbatim>\<open>a/\<close> if it has one. For the one patch of \<^verbatim>\<open>a/foo.txt\<close> into \<^verbatim>\<open>b/foo.txt\<close> they are exactly
  \<^verbatim>\<open>foo.txt\<close>.
\<close>

theorem requiredFilesRelative_extraction:
  "set (requiredFilesRelative parsedPatches)
     = {strip_prefix ''a/'' name | name.
          \<exists>p \<in> set parsedPatches.
            oldFileName p = Some name \<and> name \<noteq> [] \<and> name \<noteq> ''/dev/null''}
   \<and> distinct (requiredFilesRelative parsedPatches)
   \<and> strip_prefix ''a/'' (''a/'' @ rest) = rest
   \<and> requiredFilesRelative
        [\<lparr>oldFileName = Some ''a/foo.txt'', newFileName = Some ''b/foo.txt'',
          hunks = Some [\<lparr>hunk_header = None, hunk_lines = Some [''-old'', ''+new'']\<rparr>]\<rparr>]
       = [''foo.txt'']"
proof -
  have "set (requiredFilesRelative parsedPatches)
     = {strip_prefix ''a/'' name | name.
          \<exists>p \<in> set parsedPatches.
            oldFileName p = Some name \<and> name \<noteq> [] \<and> name \<noteq> ''/dev/null''}"
    unfolding requiredFilesRelative_def by (subst required_fold_set) simp
  moreover have "distinct (requiredFilesRelative parsedPatches)"
    unfolding requiredFilesRelative_def by (rule required_fold_distinct) simp
  moreover have "strip_prefix ''a/'' (''a/'' @ rest) = rest"
    by (simp add: strip_prefix_def startsWith_def)
  moreover have "requiredFilesRelative
        [\<lparr>oldFileName = Some ''a/foo.txt'', newFileName = Some ''b/foo.txt'',
          hunks = Some [\<lparr>hunk_header = None, hunk_lines = Some [''-old'', ''+new'']\<rparr>]\<rparr>]
       = [''foo.txt'']"
    by (simp add: requiredFilesRelative_def truthy_opt_def truthy_def strip_prefix_def
        startsWith_def set_add_def)
  ultimately show ?thesis by blast
qed

subsection \<open>Nothing to preview\<close>

lemma parsePatch_result:
  "fst (parsePatch parser t u) = fst (parsePatch parser t u')"
  by (auto simp: parsePatch_def split: sum.splits option.splits list.splits if_splits)

text \<open>
  Claim C2, as the code has it. (1) A preview request whose patch text is empty or blank
  leaves an empty preview body and the status \<^verbatim>\<open>Paste patch content to see preview.\<close>, which
  is not flagged as an error. (2) A request that gets as far as the parsed patches (text not
  blank, a selected source without an error, a patch the parser accepts) and finds no
  required path leaves an empty preview body too, and the status
  \<^verbatim>\<open>Patch seems empty or only affects /dev/null.\<close>, which is flagged as an error.
\<close>

theorem generatePatchPreview_nothing_to_preview:
  "(\<not> truthy (trim patchText) \<longrightarrow>
      patchPreview (snd (snd (generatePatchPreview store fetch parser patchText (st, u)))) = ''''
      \<and> previewStatus (snd (snd (generatePatchPreview store fetch parser patchText (st, u))))
          = \<lparr>textContent = ''Paste patch content to see preview.'', className = ''''\<rparr>)
   \<and> (truthy (trim patchText) \<and> truthy_id (selectedDirectoryId st)
      \<and> find_dir st (the (selectedDirectoryId st)) = Some dir \<and> \<not> truthy_opt (dir_error dir)
      \<and> fst (parsePatch parser patchText u) = Some parsedPatches
      \<and> requiredFilesRelative parsedPatches = [] \<longrightarrow>
      patchPreview (snd (snd (generatePatchPreview store fetch parser patchText (st, u)))) = ''''
      \<and> previewStatus (snd (snd (generatePatchPreview store fetch parser patchText (st, u))))
          = \<lparr>textContent = ''Patch seems empty or only affects /dev/null.'',
             className = ''error''\<rparr>)"
proof -
  have blank: "js_includes ''Paste patch content to see preview.'' ''success'' = False"
    by (simp add: startsWith_def)
  have one: "patchPreview (snd (snd (generatePatchPreview store fetch parser patchText (st, u)))) = ''''
      \<and> previewStatus (snd (snd (generatePatchPreview store fetch parser patchText (st, u))))
          = \<lparr>textContent = ''Paste patch content to see preview.'', className = ''''\<rparr>"
    if "\<not> truthy (trim patchText)"
    using that blank by (simp add: generatePatchPreview_def clearPreview_def setStatus_def)
  have two: "patchPreview (snd (snd (generatePatchPreview store fetch parser patchText (st, u)))) = ''''
      \<and> previewStatus (snd (snd (generatePatchPreview store fetch parser patchText (st, u))))
          = \<lparr>textContent = ''Patch seems empty or only affects /dev/null.'',
             className = ''error''\<rparr>"
    if t: "truthy (trim patchText)" and s: "truthy_id (selectedDirectoryId st)"
      and d: "find_dir st (the (selectedDirectoryId st)) = Some dir"
      and e: "\<not> truthy_opt (dir_error dir)"
      and p: "fst (parsePatch parser patchText u) = Some parsedPatches"
      and r: "requiredFilesRelative parsedPatches = []"
  proof -
    have pp: "parsePatch parser patchText u' = (Some parsedPatches, u')" for u'
    proof -
      have "fst (parsePatch parser patchText u') = fst (parsePatch parser patchText u)"
        by (rule parsePatch_result)
      with p have "fst (parsePatch parser patchText u') = Some parsedPatches"
        by (simp only:)
      then show ?thesis
        by (auto simp: parsePatch_def split: sum.splits option.splits list.splits if_splits)
    qed
    show ?thesis
      using t s d e r
      by (simp add: generatePatchPreview_def clearPreview_def pp setStatus_def)
  qed
  from one two show ?thesis by blast
qed

theorem generatePatchPreview_nothing_to_preview_witness:
  "patchPreview (snd (snd (generatePatchPreview sample_store (batch_ok files_b_only)
      parser_new_file ''  '' (sample_state, sample_ui)))) = ''''
   \<and> previewStatus (snd (snd (generatePatchPreview sample_store (batch_ok files_b_only)
      parser_new_file ''  '' (sample_state, sample_ui))))
       = \<lparr>textContent = ''Paste patch content to see preview.'', className = ''''\<rparr>
   \<and> patchPreview (snd (snd (generatePatchPreview sample_store (batch_ok files_b_only)
      parser_new_file ''--- /dev/null'' (sample_state, sample_ui)))) = ''''
   \<and> previewStatus (snd (snd (generatePatchPreview sample_store (batch_ok files_b_only)
      parser_new_file ''--- /dev/null'' (sample_state, sample_ui))))
       = \<lparr>textContent = ''Patch seems empty or only affects /dev/null.'', className = ''error''\<rparr>"
proof -
  have blank: "\<not> truthy (trim ''  '')"
    by (simp add: trim_def js_space_def truthy_def)
  have nonblank: "truthy (trim ''--- /dev/null'')"
    by (simp add: trim_def js_space_def truthy_def)
  have sel: "truthy_id (selectedDirectoryId sample_state)"
    by (simp add: sample_state_def truthy_id_def)
  have dir: "find_dir sample_state (the (selectedDirectoryId sample_state)) =
     Some \<lparr>dir_id = 7, dir_type = ''path'', dir_path = Some ''/root'', dir_name = Some ''root'',
           dir_tree = None, dir_error = None\<rparr>"
    by (simp add: find_dir_def sample_state_def)
  have parsed: "fst (parsePatch parser_new_file ''--- /dev/null'' sample_ui) =
     Some [\<lparr>oldFileName = Some ''/dev/null'', newFileName = Some ''b/new.txt'',
                 hunks = Some [\<lparr>hunk_header = Some ''@@ -0,0 +1 @@'',
                                hunk_lines = Some [''+hello'']\<rparr>]\<rparr>]"
    by (simp add: parsePatch_def parser_new_file_def truthy_opt_def truthy_def)
  have none: "requiredFilesRelative
       [\<lparr>oldFileName = Some ''/dev/null'', newFileName = Some ''b/new.txt'',
                 hunks = Some [\<lparr>hunk_header = Some ''@@ -0,0 +1 @@'',
                                hunk_lines = Some [''+hello'']\<rparr>]\<rparr>] = []"
    by (simp add: requiredFilesRelative_def)
  show ?thesis
    using blank nonblank sel dir parsed none
      generatePatchPreview_nothing_to_preview [where patchText = "''  ''"
        and store = sample_store and fetch = "batch_ok files_b_only"
        and parser = parser_new_file and st = sample_state and u = sample_ui]
      generatePatchPreview_nothing_to_preview [where patchText = "''--- /dev/null''"
        and store = sample_store and fetch = "batch_ok files_b_only"
        and parser = parser_new_file and st = sample_state and u = sample_ui
        and dir = "\<lparr>dir_id = 7, dir_type = ''path'', dir_path = Some ''/root'',
                     dir_name = Some ''root'', dir_tree = None, dir_error = None\<rparr>"
        and parsedPatches = "[\<lparr>oldFileName = Some ''/dev/null'',
                 newFileName = Some ''b/new.txt'',
                 hunks = Some [\<lparr>hunk_header = Some ''@@ -0,0 +1 @@'',
                                hunk_lines = Some [''+hello'']\<rparr>]\<rparr>]"]
    by (simp add: truthy_opt_def)
qed

text \<open>
  Claim C2 as the specification words it fails at this input: every old file name of the
  parsed patch is \<^verbatim>\<open>/dev/null\<close>, so no path is required, and the preview status is flagged
  as an error.
\<close>

theorem generatePatchPreview_nothing_to_preview_counterexample:
  "requiredFilesRelative
       [\<lparr>oldFileName = Some ''/dev/null'', newFileName = Some ''b/new.txt'',
         hunks = Some [\<lparr>hunk_header = Some ''@@ -0,0 +1 @@'',
                        hunk_lines = Some [''+hello'']\<rparr>]\<rparr>] = []
   \<and> fst (parsePatch parser_new_file ''--- /dev/null'' sample_ui) =
       Some [\<lparr>oldFileName = Some ''/dev/null'', newFileName = Some ''b/new.txt'',
              hunks = Some [\<lparr>hunk_header = Some ''@@ -0,0 +1 @@'',
                             hunk_lines = Some [''+hello'']\<rparr>]\<rparr>]
   \<and> className (previewStatus (snd (snd (generatePatchPreview sample_store
        (batch_ok files_b_only) parser_new_file ''--- /dev/null'' (sample_state, sample_ui)))))
       = ''error''"
  by (simp add: generatePatchPreview_def clearPreview_def setStatus_def parsePatch_def
      parser_new_file_def requiredFilesRelative_def truthy_opt_def truthy_def truthy_id_def
      trim_def js_space_def find_dir_def sample_state_def sample_ui_def)

subsection \<open>Preconditions of apply\<close>

text \<open>
  Claim C7. \<open>applyPatch\<close> tests its preconditions before it sends anything. With no source
  selected, with an uploaded source selected, with a selected source that has no path, and
  with an empty or blank patch text, it sets the apply status to an error message of its
  own and returns without a single \<^verbatim>\<open>fetch\<close> call; the four messages differ from one
  another. Whichever of the four preconditions fails, alone or together with others, no
  call is made and the status is an error.
\<close>

theorem applyPatch_preconditions:
  "(\<not> truthy_id (selectedDirectoryId st) \<longrightarrow>
      applyStatus (fst (applyPatch fetch patchText st u))
        = \<lparr>textContent = ''Error: No project source selected.'', className = ''error''\<rparr>
      \<and> snd (applyPatch fetch patchText st u) = [])
   \<and> (truthy_id (selectedDirectoryId st)
      \<and> find_dir st (the (selectedDirectoryId st)) = Some dir
      \<and> dir_type dir = ''uploaded'' \<longrightarrow>
      applyStatus (fst (applyPatch fetch patchText st u))
        = \<lparr>textContent = ''Error: Cannot apply patch to uploaded directories.'',
           className = ''error''\<rparr>
      \<and> snd (applyPatch fetch patchText st u) = [])
   \<and> (truthy_id (selectedDirectoryId st)
      \<and> find_dir st (the (selectedDirectoryId st)) = Some dir
      \<and> dir_type dir \<noteq> ''uploaded'' \<and> \<not> truthy_opt (dir_path dir) \<longrightarrow>
      applyStatus (fst (applyPatch fetch patchText st u))
        = \<lparr>textContent = ''Error: Selected source has no valid path.'', className = ''error''\<rparr>
      \<and> snd (applyPatch fetch patchText st u) = [])
   \<and> (truthy_id (selectedDirectoryId st)
      \<and> find_dir st (the (selectedDirectoryId st)) = Some dir
      \<and> dir_type dir \<noteq> ''uploaded'' \<and> truthy_opt (dir_path dir)
      \<and> \<not> truthy (trim patchText) \<longrightarrow>
      applyStatus (fst (applyPatch fetch patchText st u))
        = \<lparr>textContent = ''Error: Patch content is empty.'', className = ''error''\<rparr>
      \<and> snd (applyPatch fetch patchText st u) = [])
   \<and> (\<not> truthy_id (selectedDirectoryId st)
      \<or> (\<exists>d. find_dir st (the (selectedDirectoryId st)) = Some d
               \<and> (dir_type d = ''uploaded'' \<or> \<not> truthy_opt (dir_path d)))
      \<or> \<not> truthy (trim patchText) \<longrightarrow>
      snd (applyPatch fetch patchText st u) = []
      \<and> className (applyStatus (fst (applyPatch fetch patchText st u))) = ''error'')
   \<and> distinct [''Error: No project source selected.'',
                ''Error: Cannot apply patch to uploaded directories.'',
                ''Error: Selected source has no valid path.'',
                ''Error: Patch content is empty.'']"
proof -
  have a: "\<not> truthy_id (selectedDirectoryId st) \<Longrightarrow>
      applyStatus (fst (applyPatch fetch patchText st u))
        = \<lparr>textContent = ''Error: No project source selected.'', className = ''error''\<rparr>
      \<and> snd (applyPatch fetch patchText st u) = []"
    by (simp add: applyPatch_def setStatus_def)
  have b: "truthy_id (selectedDirectoryId st) \<Longrightarrow>
      find_dir st (the (selectedDirectoryId st)) = Some dir \<Longrightarrow>
      dir_type dir = ''uploaded'' \<Longrightarrow>
      applyStatus (fst (applyPatch fetch patchText st u))
        = \<lparr>textContent = ''Error: Cannot apply patch to uploaded directories.'',
           className = ''error''\<rparr>
      \<and> snd (applyPatch fetch patchText st u) = []"
    by (simp add: applyPatch_def setStatus_def)
  have c: "truthy_id (selectedDirectoryId st) \<Longrightarrow>
      find_dir st (the (selectedDirectoryId st)) = Some dir \<Longrightarrow>
      dir_type dir \<noteq> ''uploaded'' \<Longrightarrow> \<not> truthy_opt (dir_path dir) \<Longrightarrow>
      applyStatus (fst (applyPatch fetch patchText st u))
        = \<lparr>textContent = ''Error: Selected source has no valid path.'', className = ''error''\<rparr>
      \<and> snd (applyPatch fetch patchText st u) = []"
    by (simp add: applyPatch_def setStatus_def)
  have d: "truthy_id (selectedDirectoryId st) \<Longrightarrow>
      find_dir st (the (selectedDirectoryId st)) = Some dir \<Longrightarrow>
      dir_type dir \<noteq> ''uploaded'' \<Longrightarrow> truthy_opt (dir_path dir) \<Longrightarrow>
      \<not> truthy (trim patchText) \<Longrightarrow>
      applyStatus (fst (applyPatch fetch patchText st u))
        = \<lparr>textContent = ''Error: Patch content is empty.'', className = ''error''\<rparr>
      \<and> snd (applyPatch fetch patchText st u) = []"
    by (simp add: applyPatch_def setStatus_def)
  have e: "\<not> truthy_id (selectedDirectoryId st)
      \<or> (\<exists>d. find_dir st (the (selectedDirectoryId st)) = Some d
               \<and> (dir_type d = ''uploaded'' \<or> \<not> truthy_opt (dir_path d)))
      \<or> \<not> truthy (trim patchText) \<Longrightarrow>
      snd (applyPatch fetch patchText st u) = []
      \<and> className (applyStatus (fst (applyPatch fetch patchText st u))) = ''error''"
    by (cases "find_dir st (the (selectedDirectoryId st))")
       (auto simp: applyPatch_def setStatus_def)
  have f: "distinct [''Error: No project source selected.'',
                ''Error: Cannot apply patch to uploaded directories.'',
                ''Error: Selected source has no valid path.'',
                ''Error: Patch content is empty.'']"
    by simp
  from a b c d e f show ?thesis by blast
qed

theorem applyPatch_preconditions_witness:
  "applyPatch apply_unreachable ''--- a/x'' sample_state_none sample_ui
     = (sample_ui\<lparr>applyStatus :=
          \<lparr>textContent = ''Error: No project source selected.'', className = ''error''\<rparr>\<rparr>, [])
   \<and> applyStatus (fst (applyPatch apply_unreachable ''--- a/x'' sample_state_upload sample_ui))
     = \<lparr>textContent = ''Error: Cannot apply patch to uploaded directories.'',
        className = ''error''\<rparr>
   \<and> snd (applyPatch apply_unreachable ''--- a/x'' sample_state_upload sample_ui) = []
   \<and> applyStatus (fst (applyPatch apply_unreachable ''--- a/x'' sample_state_pathless sample_ui))
     = \<lparr>textContent = ''Error: Selected source has no valid path.'', className = ''error''\<rparr>
   \<and> snd (applyPatch apply_unreachable ''--- a/x'' sample_state_pathless sample_ui) = []
   \<and> applyStatus (fst (applyPatch apply_unreachable ''  '' sample_state sample_ui))
     = \<lparr>textContent = ''Error: Patch content is empty.'', className = ''error''\<rparr>
   \<and> snd (applyPatch apply_unreachable ''  '' sample_state sample_ui) = []"
proof -
  have none: "\<not> truthy_id (selectedDirectoryId sample_state_none)"
    by (simp add: sample_state_none_def truthy_id_def)
  have up: "truthy_id (selectedDirectoryId sample_state_upload)
            \<and> find_dir sample_state_upload (the (selectedDirectoryId sample_state_upload))
               = Some \<lparr>dir_id = 9, dir_type = ''uploaded'', dir_path = None,
                       dir_name = Some ''upload'', dir_tree = Some [], dir_error = None\<rparr>"
    by (simp add: sample_state_upload_def sample_state_def truthy_id_def find_dir_def)
  have pathless: "truthy_id (selectedDirectoryId sample_state_pathless)
            \<and> find_dir sample_state_pathless (the (selectedDirectoryId sample_state_pathless))
               = Some \<lparr>dir_id = 11, dir_type = ''path'', dir_path = None, dir_name = None,
                       dir_tree = None, dir_error = None\<rparr>"
    by (simp add: sample_state_pathless_def sample_state_def truthy_id_def find_dir_def)
  have server: "truthy_id (selectedDirectoryId sample_state)
            \<and> find_dir sample_state (the (selectedDirectoryId sample_state))
               = Some \<lparr>dir_id = 7, dir_type = ''path'', dir_path = Some ''/root'',
                       dir_name = Some ''root'', dir_tree = None, dir_error = None\<rparr>"
    by (simp add: sample_state_def truthy_id_def find_dir_def)
  have blank: "\<not> truthy (trim ''  '')"
    by (simp add: trim_def js_space_def truthy_def)
  have first: "applyPatch apply_unreachable ''--- a/x'' sample_state_none sample_ui
     = (sample_ui\<lparr>applyStatus :=
          \<lparr>textContent = ''Error: No project source selected.'', className = ''error''\<rparr>\<rparr>, [])"
    using none by (simp add: applyPatch_def setStatus_def)
  show ?thesis
    using first none up pathless server blank
      applyPatch_preconditions [where st = sample_state_none and fetch = apply_unreachable
        and patchText = "''--- a/x''" and u = sample_ui]
      applyPatch_preconditions [where st = sample_state_upload and fetch = apply_unreachable
        and patchText = "''--- a/x''" and u = sample_ui
        and dir = "\<lparr>dir_id = 9, dir_type = ''uploaded'', dir_path = None,
                     dir_name = Some ''upload'', dir_tree = Some [], dir_error = None\<rparr>"]
      applyPatch_preconditions [where st = sample_state_pathless and fetch = apply_unreachable
        and patchText = "''--- a/x''" and u = sample_ui
        and dir = "\<lparr>dir_id = 11, dir_type = ''path'', dir_path = None, dir_name = None,
                     dir_tree = None, dir_error = None\<rparr>"]
      applyPatch_preconditions [where st = sample_state and fetch = apply_unreachable
        and patchText = "''  ''" and u = sample_ui
        and dir = "\<lparr>dir_id = 7, dir_type = ''path'', dir_path = Some ''/root'',
                     dir_name = Some ''root'', dir_tree = None, dir_error = None\<rparr>"]
    by (simp add: truthy_opt_def truthy_def)
qed

end
